theory Spec2Isabelle
  imports Complex_Main "HOL-Library.Word"
begin

section \<open>JavaScript values used by the proxy\<close>

text \<open>
  Numbers are converted to text by template literals and \<open>toString()\<close>; the decimal
  rendering of an integer is \<open>show_int\<close>.
\<close>

definition digit_char :: "nat \<Rightarrow> char" where
  "digit_char d = ''0123456789'' ! d"

fun show_nat :: "nat \<Rightarrow> string" where
  "show_nat n = (if n < 10 then [digit_char n] else show_nat (n div 10) @ [digit_char (n mod 10)])"

declare show_nat.simps [simp del]

definition show_int :: "int \<Rightarrow> string" where
  "show_int i = (if i < 0 then CHR ''-'' # show_nat (nat (- i)) else show_nat (nat i))"

text \<open>\<open>String.prototype.startsWith\<close> and \<open>String.prototype.includes\<close>.\<close>

fun startsWith :: "string \<Rightarrow> string \<Rightarrow> bool" where
  "startsWith s [] = True"
| "startsWith [] (p # ps) = False"
| "startsWith (c # cs) (p # ps) = (c = p \<and> startsWith cs ps)"

fun str_includes :: "string \<Rightarrow> string \<Rightarrow> bool" where
  "str_includes [] sub = (sub = [])"
| "str_includes (c # cs) sub = (startsWith (c # cs) sub \<or> str_includes cs sub)"

text \<open>
  Thrown values. \<open>HTTPException\<close> carries a status, a message and an optional cause;
  every other thrown value is a plain JavaScript error.
\<close>

datatype jserror =
    Error string
  | TypeError string
  | RangeError string
  | SyntaxError string
  | ZodError "string list"

datatype cause =
    SubrequestLimit int int
  | ZodIssues "string list"
  | OriginalError jserror
  | RateLimitInfo int int string string

datatype exn =
    HTTPException int string "cause option"
  | Thrown jserror

datatype json =
    JNull
  | JBool bool
  | JNumber real
  | JString string
  | JArray "json list"
  | JObject "(string \<times> json) list"

datatype node_env = development | production | test

record ValidatedEnv =
  DUNE_SIM_API_KEY :: string
  NODE_ENV :: node_env

type_synonym byte = "8 word"

text \<open>
  A response received from \<open>fetch\<close>. Its body is absent or a stream; the stream is
  the sequence of results of \<open>reader.read()\<close> up to \<open>done\<close>: a chunk of bytes, or
  a read that rejects.
\<close>

datatype read_event = Chunk "byte list" | ReadFailure jserror

record FetchResponse =
  status :: int
  statusText :: string
  body :: "read_event list option"

definition ok :: "FetchResponse \<Rightarrow> bool" where
  "ok res = (200 \<le> status res \<and> status res \<le> 299)"

text \<open>
  A response built by the proxy. \<open>bodyUsed\<close> tells whether its body has been read or
  locked, as it is once the runtime has sent the response to a client.

  The constructor \<open>new Response(text, {status, headers})\<close> with a text body: the
  runtime throws a \<open>RangeError\<close> for a status outside 200 to 599 and a
  \<open>TypeError\<close> for a null body status, which admits no body.
\<close>

record Response =
  resp_status :: int
  resp_headers :: "(string \<times> string) list"
  resp_body :: string
  bodyUsed :: bool

definition null_body_status :: "int \<Rightarrow> bool" where
  "null_body_status st = (st \<in> {101, 103, 204, 205, 304})"

definition Response_new :: "string \<Rightarrow> int \<Rightarrow> (string \<times> string) list \<Rightarrow> jserror + Response" where
  "Response_new content st hs =
     (if st < 200 \<or> 599 < st
      then Inl (RangeError ''The status provided is outside the range [200, 599].'')
      else if null_body_status st
      then Inl (TypeError ''Response with null body status cannot have body'')
      else Inr \<lparr>resp_status = st, resp_headers = hs, resp_body = content, bodyUsed = False\<rparr>)"

text \<open>
  \<open>Response.clone()\<close>: the runtime throws a \<open>TypeError\<close> when the body has been
  read or is locked by a reader; otherwise the copy has the status, headers and body of
  the original.
\<close>

definition clone :: "Response \<Rightarrow> jserror + Response" where
  "clone response =
     (if bodyUsed response then Inl (TypeError ''Body has already been used'')
      else Inr response)"

record RequestInit =
  init_method :: string
  init_headers :: "(string \<times> string) list"
  init_body :: "string option"

text \<open>
  A parsed URL: scheme and host, the path, the query string without its question mark
  (empty when there is none) and the fragment with its hash sign (empty when there is
  none).
\<close>

record URL =
  url_origin :: string
  pathname :: string
  search :: string
  hash :: string

definition URL_toString :: "URL \<Rightarrow> string" where
  "URL_toString url =
     url_origin url @ pathname url
       @ (if search url = [] then [] else CHR ''?'' # search url) @ hash url"

text \<open>
  The surroundings of the worker: what the upstream answers to the n-th outbound call
  of this process, what \<open>Math.random()\<close> returns on its n-th use, and the functions of
  the runtime that the code calls: the URL parser, the UTF-8 decoder, the JSON parser and
  printer, and the ISO rendering of a date.
\<close>

record env =
  fetch :: "nat \<Rightarrow> string \<Rightarrow> RequestInit \<Rightarrow> jserror + FetchResponse"
  Math_random :: "nat \<Rightarrow> real"
  URL_new :: "string \<Rightarrow> URL"
  TextDecoder_decode :: "byte list \<Rightarrow> string"
  JSON_parse :: "string \<Rightarrow> jserror + json"
  JSON_stringify :: "json \<Rightarrow> string"
  Date_toISOString :: "int \<Rightarrow> string"

text \<open>
  The mutable state of the process: the outbound calls made so far, the delays slept so
  far, the module-level map \<open>inFlightRequests\<close> and the pending cleanup timers. A
  promise stored in the map is represented by the outcome it settles with, which is all
  that a caller awaiting it observes.
\<close>

record world =
  calls :: "(string \<times> RequestInit) list"
  sleeps :: "int list"
  inFlightRequests :: "string \<rightharpoonup> (exn + Response)"
  timers :: "(string \<times> nat) list"

text \<open>
  The rate-limit record and the key-value namespace that stores it. An entry holds the
  record and the expiration time-to-live, in seconds, it was written with. A namespace
  that is failing raises the given error on a read or on a write.
\<close>

record RateLimitData =
  count :: int
  resetTime :: int

record KVNamespace =
  entries :: "string \<rightharpoonup> RateLimitData \<times> int"
  get_fault :: "jserror option"
  put_fault :: "jserror option"

datatype log_level = LogDebug | LogInfo | LogWarn | LogError

text \<open>
  The request context \<open>c\<close>: the inbound request (method, path, headers and the outcome
  of reading its body), the context variables, the \<open>RATE_LIMITER\<close> binding, the response
  headers set so far and the log lines written so far.
\<close>

record Context =
  req_method :: string
  req_path :: string
  req_headers :: "(string \<times> string) list"
  req_text :: "jserror + string"
  requestId :: string
  subrequestCount :: "int option"
  validatedEnv :: ValidatedEnv
  RATE_LIMITER :: "KVNamespace option"
  res_headers :: "string \<rightharpoonup> string"
  logs :: "(log_level \<times> string) list"

section \<open>Configuration constants (src/config/constants.ts)\<close>

definition MAX_RESPONSE_SIZE :: nat where
  "MAX_RESPONSE_SIZE = 24 * 1024 * 1024"

definition MAX_SUBREQUESTS :: int where
  "MAX_SUBREQUESTS = 45"

definition MAX_RETRIES :: int where
  "MAX_RETRIES = 3"

definition NON_RETRYABLE_STATUS :: "int set" where
  "NON_RETRYABLE_STATUS = {400, 401, 403, 404, 405, 409, 422, 501, 505}"

definition CLEANUP_DELAY :: nat where
  "CLEANUP_DELAY = 500"

definition DUNE_SIM_BASE_ENDPOINT :: string where
  "DUNE_SIM_BASE_ENDPOINT = ''https://api.sim.dune.com''"

definition INITIAL_DELAY :: real where
  "INITIAL_DELAY = 1000"

definition MAX_DELAY :: real where
  "MAX_DELAY = 10000"

definition BACKOFF_MULTIPLIER :: real where
  "BACKOFF_MULTIPLIER = 2"

definition SUPPORTED_CHAINS_TTL :: nat where
  "SUPPORTED_CHAINS_TTL = 3600"

definition SUPPORTED_CHAINS_STALE_TTL :: nat where
  "SUPPORTED_CHAINS_STALE_TTL = 86400"

section \<open>Backoff calculator (utils/fetch.ts, calculateDelay)\<close>

text \<open>
  JavaScript numbers are modelled by exact reals, so the rounding error of the
  floating-point operations is not part of the model. \<open>Math.pow\<close> with the integer
  exponent \<open>attempt - 1\<close> is \<open>powi\<close>, \<open>Math.round\<close> (round half up) is \<open>round\<close>,
  and the value of \<open>Math.random()\<close>, a number in \<open>[0, 1)\<close>, is the last argument.
\<close>

definition clampedDelay :: "int \<Rightarrow> real \<Rightarrow> real \<Rightarrow> real \<Rightarrow> real" where
  "clampedDelay attempt initialDelay maxDelay backoffMultiplier =
     (let exponentialDelay = initialDelay * (backoffMultiplier powi (attempt - 1))
      in min exponentialDelay maxDelay)"

definition calculateDelay :: "int \<Rightarrow> real \<Rightarrow> real \<Rightarrow> real \<Rightarrow> real \<Rightarrow> int" where
  "calculateDelay attempt initialDelay maxDelay backoffMultiplier random =
     (let clamped = clampedDelay attempt initialDelay maxDelay backoffMultiplier;
          jitter = clamped * 0.25 * (random * 2 - 1)
      in round (clamped + jitter))"

section \<open>Bounded fetch with retry (utils/fetch.ts, fetchWithRetry)\<close>

definition defaultShouldRetry :: "FetchResponse \<Rightarrow> bool" where
  "defaultShouldRetry response =
     (if ok response then False
      else if status response \<in> NON_RETRYABLE_STATUS then False
      else (status response \<ge> 500 \<or> status response = 429))"

text \<open>
  The retry options. A field left out by the caller takes its default from
  \<open>RETRY_CONFIG\<close>. The \<open>logger\<close> and \<open>onRetry\<close> fields only observe the loop and are
  left out.
\<close>

record FetchRetryOptions =
  maxRetries :: "int option"
  initialDelay :: "real option"
  maxDelay :: "real option"
  backoffMultiplier :: "real option"
  shouldRetry :: "(FetchResponse \<Rightarrow> bool) option"

definition do_fetch :: "env \<Rightarrow> string \<Rightarrow> RequestInit \<Rightarrow> world \<Rightarrow> (jserror + FetchResponse) \<times> world" where
  "do_fetch e url options w =
     (fetch e (length (calls w)) url options, w\<lparr>calls := calls w @ [(url, options)]\<rparr>)"

definition do_sleep :: "env \<Rightarrow> FetchRetryOptions \<Rightarrow> int \<Rightarrow> world \<Rightarrow> world" where
  "do_sleep e ro attempt w =
     (let delay = calculateDelay attempt
                    (case initialDelay ro of None \<Rightarrow> INITIAL_DELAY | Some d \<Rightarrow> d)
                    (case maxDelay ro of None \<Rightarrow> MAX_DELAY | Some d \<Rightarrow> d)
                    (case backoffMultiplier ro of None \<Rightarrow> BACKOFF_MULTIPLIER | Some m \<Rightarrow> m)
                    (Math_random e (length (sleeps w)))
      in w\<lparr>sleeps := sleeps w @ [delay]\<rparr>)"

definition the_maxRetries :: "FetchRetryOptions \<Rightarrow> int" where
  "the_maxRetries ro = (case maxRetries ro of None \<Rightarrow> MAX_RETRIES | Some n \<Rightarrow> n)"

definition the_shouldRetry :: "FetchRetryOptions \<Rightarrow> FetchResponse \<Rightarrow> bool" where
  "the_shouldRetry ro = (case shouldRetry ro of None \<Rightarrow> defaultShouldRetry | Some f \<Rightarrow> f)"

text \<open>
  The \<open>for\<close> loop of \<open>fetchWithRetry\<close> from a given attempt number, with the
  current values of \<open>lastError\<close> and \<open>lastResponse\<close>, followed by the code after the
  loop.
\<close>

function retry_loop ::
  "env \<Rightarrow> string \<Rightarrow> RequestInit \<Rightarrow> FetchRetryOptions \<Rightarrow> int \<Rightarrow> jserror option \<Rightarrow>
   FetchResponse option \<Rightarrow> world \<Rightarrow> (jserror + FetchResponse) \<times> world" where
  "retry_loop e url options ro attempt lastError lastResponse w =
     (if attempt \<le> the_maxRetries ro then
        (case do_fetch e url options w of
           (Inr response, w1) \<Rightarrow>
             if attempt < the_maxRetries ro \<and> the_shouldRetry ro response
             then retry_loop e url options ro (attempt + 1) lastError (Some response)
                    (do_sleep e ro attempt w1)
             else (Inr response, w1)
         | (Inl error, w1) \<Rightarrow>
             if attempt < the_maxRetries ro
             then retry_loop e url options ro (attempt + 1) (Some error) lastResponse
                    (do_sleep e ro attempt w1)
             else retry_loop e url options ro (attempt + 1) (Some error) lastResponse w1)
      else
        (case lastResponse of
           Some response \<Rightarrow> (Inr response, w)
         | None \<Rightarrow>
             (case lastError of
                Some error \<Rightarrow> (Inl error, w)
              | None \<Rightarrow>
                  (Inl (Error (''Failed to fetch '' @ url @ '' after ''
                                 @ show_int (the_maxRetries ro) @ '' attempts'')), w))))"
  by pat_completeness auto
termination
  by (relation "measure (\<lambda>(e, url, options, ro, attempt, lastError, lastResponse, w).
                   nat (the_maxRetries ro + 1 - attempt))") auto

declare retry_loop.simps [simp del]

definition fetchWithRetry ::
  "env \<Rightarrow> string \<Rightarrow> RequestInit \<Rightarrow> FetchRetryOptions \<Rightarrow> world \<Rightarrow> (jserror + FetchResponse) \<times> world" where
  "fetchWithRetry e url options retryOptions w =
     retry_loop e url options retryOptions 1 None None w"

section \<open>Bounded response reader (utils/proxy.ts, processResponse)\<close>

text \<open>
  The read loop over the remaining stream, with the chunks buffered so far and the
  running total. A failure is returned together with the buffer as it was when the loop
  was left, so that what had been buffered by then can be stated.
\<close>

definition too_large :: "nat \<Rightarrow> exn" where
  "too_large n =
     HTTPException 413
       (''Response too large: '' @ show_nat n @ '' bytes exceeds ''
          @ show_nat MAX_RESPONSE_SIZE @ '' bytes limit'') None"

fun read_loop ::
  "read_event list \<Rightarrow> byte list list \<Rightarrow> nat \<Rightarrow> (exn \<times> byte list list) + (byte list list \<times> nat)" where
  "read_loop [] chunks totalSize = Inr (chunks, totalSize)"
| "read_loop (ReadFailure err # rest) chunks totalSize = Inl (Thrown err, chunks)"
| "read_loop (Chunk v # rest) chunks totalSize =
     (if totalSize + length v > MAX_RESPONSE_SIZE
      then Inl (too_large (totalSize + length v), chunks)
      else read_loop rest (chunks @ [v]) (totalSize + length v))"

record ProcessedResponse =
  data :: json
  bodyText :: string
  totalSize :: nat

definition processResponse :: "env \<Rightarrow> FetchResponse \<Rightarrow> exn + ProcessedResponse" where
  "processResponse e response =
     (case body response of
        None \<Rightarrow> Inr \<lparr>data = JNull, bodyText = [], totalSize = 0\<rparr>
      | Some stream \<Rightarrow>
          (case read_loop stream [] 0 of
             Inl (ex, chunks) \<Rightarrow> Inl ex
           | Inr (chunks, total_read) \<Rightarrow>
               (let bodyArray = concat chunks;
                    decoded = TextDecoder_decode e bodyArray
                in case JSON_parse e decoded of
                     Inr d \<Rightarrow> Inr \<lparr>data = d, bodyText = decoded, totalSize = total_read\<rparr>
                   | Inl err \<Rightarrow>
                       Inl (HTTPException 502 ''Invalid JSON response from upstream API'' None))))"

section \<open>Proxy orchestrator (utils/proxy.ts)\<close>

definition createCacheHeaders :: "string \<Rightarrow> (string \<times> string) list" where
  "createCacheHeaders path =
     [(''Cache-Control'',
       if str_includes path ''supported-chains''
       then ''public, max-age='' @ show_nat SUPPORTED_CHAINS_TTL
              @ '', s-maxage='' @ show_nat SUPPORTED_CHAINS_STALE_TTL
       else ''private, no-cache''),
      (''Content-Type'', ''application/json'')]"

definition shouldDeduplicate :: "string \<Rightarrow> bool" where
  "shouldDeduplicate method = (method = ''GET'' \<or> method = ''HEAD'')"

text \<open>The retry predicate that \<open>executeProxyRequest\<close> passes to \<open>fetchWithRetry\<close>.\<close>

definition proxyShouldRetry :: "FetchResponse \<Rightarrow> bool" where
  "proxyShouldRetry res =
     (if ok res then False
      else if status res = 429 then True
      else if status res \<ge> 500 then (status res \<noteq> 501 \<and> status res \<noteq> 505)
      else False)"

definition proxyRetryOptions :: FetchRetryOptions where
  "proxyRetryOptions =
     \<lparr>maxRetries = None, initialDelay = None, maxDelay = None, backoffMultiplier = None,
      shouldRetry = Some proxyShouldRetry\<rparr>"

text \<open>
  The schema is the function \<open>responseSchema.parse\<close>: it returns the validated data or
  throws, a \<open>ZodError\<close> with its issues when the data does not match.

  The \<open>try\<close> block of \<open>executeProxyRequest\<close>. An error thrown by
  \<open>new Response\<close> on the success path is no \<open>ZodError\<close>, so the inner \<open>catch\<close>
  throws it again. The calls of the logger are left out.
\<close>

definition requestBody :: "Context \<Rightarrow> jserror + string option" where
  "requestBody c =
     (if req_method c \<noteq> ''GET'' \<and> req_method c \<noteq> ''HEAD''
      then map_sum id Some (req_text c) else Inr None)"

definition executeProxyRequest_try ::
  "env \<Rightarrow> Context \<Rightarrow> URL \<Rightarrow> (string \<times> string) list \<Rightarrow> (json \<Rightarrow> exn + json) \<Rightarrow> world
     \<Rightarrow> (exn + Response) \<times> world" where
  "executeProxyRequest_try e c url headers responseSchema w =
     (case requestBody c of
        Inl err \<Rightarrow> (Inl (Thrown err), w)
      | Inr payload \<Rightarrow>
          (case fetchWithRetry e (URL_toString url)
                  \<lparr>init_method = req_method c, init_headers = headers, init_body = payload\<rparr>
                  proxyRetryOptions w of
             (Inl err, w1) \<Rightarrow> (Inl (Thrown err), w1)
           | (Inr response, w1) \<Rightarrow>
               (case processResponse e response of
                  Inl ex \<Rightarrow> (Inl ex, w1)
                | Inr processed \<Rightarrow>
                    if ok response then
                      (case responseSchema (data processed) of
                         Inr validatedData \<Rightarrow>
                           (map_sum Thrown id
                              (Response_new (JSON_stringify e validatedData) (status response)
                                 (createCacheHeaders (pathname url))), w1)
                       | Inl (Thrown (ZodError issues)) \<Rightarrow>
                           (Inl (HTTPException 502 ''Invalid response schema from upstream API''
                                   (if NODE_ENV (validatedEnv c) = development
                                    then Some (ZodIssues issues) else None)), w1)
                       | Inl ex \<Rightarrow> (Inl ex, w1))
                    else
                      (map_sum Thrown id
                         (Response_new (JSON_stringify e (data processed)) (status response)
                            [(''Content-Type'', ''application/json'')]), w1))))"

text \<open>The outer \<open>catch\<close> of \<open>executeProxyRequest\<close>.\<close>

definition executeProxyRequest_catch :: "Context \<Rightarrow> exn \<Rightarrow> exn" where
  "executeProxyRequest_catch c ex =
     (case ex of
        HTTPException st msg cs \<Rightarrow> HTTPException st msg cs
      | Thrown err \<Rightarrow>
          HTTPException 500 ''Failed to proxy request''
            (if NODE_ENV (validatedEnv c) = development then Some (OriginalError err) else None))"

definition executeProxyRequest ::
  "env \<Rightarrow> Context \<Rightarrow> URL \<Rightarrow> (string \<times> string) list \<Rightarrow> (json \<Rightarrow> exn + json) \<Rightarrow> world
     \<Rightarrow> (exn + Response) \<times> world" where
  "executeProxyRequest e c url headers responseSchema w =
     (case executeProxyRequest_try e c url headers responseSchema w of
        (Inl ex, w1) \<Rightarrow> (Inl (executeProxyRequest_catch c ex), w1)
      | (Inr response, w1) \<Rightarrow> (Inr response, w1))"

definition proxyHeaders :: "Context \<Rightarrow> (string \<times> string) list" where
  "proxyHeaders c =
     [(''X-Sim-Api-Key'', DUNE_SIM_API_KEY (validatedEnv c)),
      (''Content-Type'', ''application/json''),
      (''X-Request-ID'', requestId c),
      (''User-Agent'', ''Dune-Sim-Proxy/1.0 (+https://github.com/cipher-rc5)'')]"

text \<open>
  The target URL. The constructor \<open>new URL\<close> is taken to succeed: the route handlers
  pass paths that begin with a slash.
\<close>

definition proxyURL :: "env \<Rightarrow> string \<Rightarrow> string option \<Rightarrow> URL" where
  "proxyURL e path queryParams =
     (let url = URL_new e (DUNE_SIM_BASE_ENDPOINT @ path)
      in case queryParams of None \<Rightarrow> url | Some q \<Rightarrow> url\<lparr>search := q\<rparr>)"

definition requestKey :: "env \<Rightarrow> Context \<Rightarrow> string \<Rightarrow> string option \<Rightarrow> string" where
  "requestKey e c path queryParams =
     req_method c @ '':'' @ URL_toString (proxyURL e path queryParams)"

text \<open>
  The lookup of an in-flight request, for a method that is deduplicated: the \<open>try\<close>
  block that awaits the entry and clones its response. It gives the copy to return, or
  nothing when there is no entry, when the entry rejects, or when \<open>clone()\<close> throws;
  in the last two cases the \<open>catch\<close> swallows the error.
\<close>

definition reuseInFlight :: "world \<Rightarrow> string \<Rightarrow> Response option" where
  "reuseInFlight w key =
     (case inFlightRequests w key of
        None \<Rightarrow> None
      | Some (Inl ex) \<Rightarrow> None
      | Some (Inr response) \<Rightarrow>
          (case clone response of Inl err \<Rightarrow> None | Inr copy \<Rightarrow> Some copy))"

text \<open>
  \<open>proxyRequest\<close> from the deduplication lookup on, that is, what it does once the
  subrequest check has passed and the counter has been written. The optional query
  parameters are given by their \<open>toString()\<close>. The call is one step of the
  process: the promise it leaves in \<open>inFlightRequests\<close> is represented by its outcome,
  and the timer it starts is recorded as pending.
\<close>

definition proxyRequest_dispatch ::
  "env \<Rightarrow> Context \<Rightarrow> string \<Rightarrow> (json \<Rightarrow> exn + json) \<Rightarrow> string option \<Rightarrow> world
     \<Rightarrow> (exn + Response) \<times> world" where
  "proxyRequest_dispatch e c path responseSchema queryParams w =
     (let url = proxyURL e path queryParams;
          key = requestKey e c path queryParams;
          canDeduplicate = shouldDeduplicate (req_method c)
      in case (if canDeduplicate then reuseInFlight w key else None) of
           Some copy \<Rightarrow> (Inr copy, w)
         | None \<Rightarrow>
             (case executeProxyRequest e c url (proxyHeaders c) responseSchema w of
                (requestPromise, w1) \<Rightarrow>
                  (requestPromise,
                   if canDeduplicate
                   then w1\<lparr>inFlightRequests := (inFlightRequests w1)(key \<mapsto> requestPromise),
                           timers := timers w1 @ [(key, CLEANUP_DELAY)]\<rparr>
                   else w1)))"

text \<open>The value of \<open>c.get('subrequestCount') || 0\<close>.\<close>

definition requestCount :: "Context \<Rightarrow> int" where
  "requestCount c = (case subrequestCount c of None \<Rightarrow> 0 | Some n \<Rightarrow> n)"

definition proxyRequest ::
  "env \<Rightarrow> Context \<Rightarrow> string \<Rightarrow> (json \<Rightarrow> exn + json) \<Rightarrow> string option \<Rightarrow> world
     \<Rightarrow> (exn + Response) \<times> Context \<times> world" where
  "proxyRequest e c path responseSchema queryParams w =
     (if requestCount c \<ge> MAX_SUBREQUESTS
      then (Inl (HTTPException 429 ''Too many subrequests in this request''
                   (Some (SubrequestLimit MAX_SUBREQUESTS (requestCount c)))), c, w)
      else (let c1 = c\<lparr>subrequestCount := Some (requestCount c + 1)\<rparr>
            in case proxyRequest_dispatch e c1 path responseSchema queryParams w of
                 (result, w1) \<Rightarrow> (result, c1, w1)))"


definition cleanup :: "string \<Rightarrow> world \<Rightarrow> world" where
  "cleanup key w =
     w\<lparr>inFlightRequests := (inFlightRequests w)(key := None),
       timers := remove1 (key, CLEANUP_DELAY) (timers w)\<rparr>"

section \<open>Rate limiter (middleware/rateLimit.ts)\<close>

text \<open>
  The options of the limiter. \<open>skipIf\<close> is a predicate on the context; the optional
  notification \<open>onLimitExceeded\<close> only observes a denial and is left out.
\<close>

record RateLimitOptions =
  requests :: int
  window :: string
  keyPrefix :: "string option"
  skipIf :: "(Context \<Rightarrow> bool) option"

definition is_digit :: "char \<Rightarrow> bool" where
  "is_digit ch = (ch \<in> set ''0123456789'')"

definition digit_value :: "char \<Rightarrow> nat" where
  "digit_value ch = length (takeWhile (\<lambda>d. d \<noteq> ch) ''0123456789'')"

definition parseInt :: "string \<Rightarrow> int" where
  "parseInt num = int (foldl (\<lambda>acc ch. acc * 10 + digit_value ch) 0 num)"

definition multipliers :: "char \<Rightarrow> int option" where
  "multipliers unit =
     (if unit = CHR ''s'' then Some 1000
      else if unit = CHR ''m'' then Some 60000
      else if unit = CHR ''h'' then Some 3600000
      else if unit = CHR ''d'' then Some 86400000
      else None)"

text \<open>
  The window must be one or more decimal digits followed by one of the unit letters
  \<open>s\<close>, \<open>m\<close>, \<open>h\<close>, \<open>d\<close>.
\<close>

definition parseWindow :: "string \<Rightarrow> jserror + int" where
  "parseWindow win =
     (if win \<noteq> [] \<and> butlast win \<noteq> [] \<and> list_all is_digit (butlast win)
      then (case multipliers (last win) of
              Some m \<Rightarrow> Inr (parseInt (butlast win) * m)
            | None \<Rightarrow> Inl (Error (''Invalid rate limit window format: '' @ win)))
      else Inl (Error (''Invalid rate limit window format: '' @ win)))"

text \<open>
  \<open>getClientIdentifier\<close>. A header that is absent or empty is falsy for \<open>||\<close>.
  \<open>trim\<close> removes the ASCII white space at both ends.
\<close>

definition is_space :: "char \<Rightarrow> bool" where
  "is_space ch = (ch \<in> set [CHR '' '', CHR 0x09, CHR 0x0A, CHR 0x0B, CHR 0x0C, CHR 0x0D])"

definition trim :: "string \<Rightarrow> string" where
  "trim s = rev (dropWhile is_space (rev (dropWhile is_space s)))"

definition req_header :: "Context \<Rightarrow> string \<Rightarrow> string option" where
  "req_header c name = map_of (req_headers c) name"

definition getClientIdentifier :: "Context \<Rightarrow> string" where
  "getClientIdentifier c =
     (let cf = (case req_header c ''CF-Connecting-IP'' of None \<Rightarrow> [] | Some v \<Rightarrow> v);
          xff = (case req_header c ''X-Forwarded-For'' of
                   None \<Rightarrow> []
                 | Some v \<Rightarrow> trim (takeWhile (\<lambda>ch. ch \<noteq> CHR '','') v));
          xri = (case req_header c ''X-Real-IP'' of None \<Rightarrow> [] | Some v \<Rightarrow> v)
      in if cf \<noteq> [] then cf
         else if xff \<noteq> [] then xff
         else if xri \<noteq> [] then xri
         else ''anonymous'')"

definition kv_get :: "KVNamespace \<Rightarrow> string \<Rightarrow> jserror + RateLimitData option" where
  "kv_get kv key =
     (case get_fault kv of
        Some err \<Rightarrow> Inl err
      | None \<Rightarrow> Inr (map_option fst (entries kv key)))"

definition kv_put :: "KVNamespace \<Rightarrow> string \<Rightarrow> RateLimitData \<Rightarrow> int \<Rightarrow> jserror + KVNamespace" where
  "kv_put kv key v expirationTtl =
     (case put_fault kv of
        Some err \<Rightarrow> Inl err
      | None \<Rightarrow> Inr (kv\<lparr>entries := (entries kv)(key \<mapsto> (v, expirationTtl))\<rparr>))"

definition set_header :: "string \<Rightarrow> string \<Rightarrow> Context \<Rightarrow> Context" where
  "set_header name v c = c\<lparr>res_headers := (res_headers c)(name \<mapsto> v)\<rparr>"

definition log_line :: "log_level \<Rightarrow> string \<Rightarrow> Context \<Rightarrow> Context" where
  "log_line level msg c = c\<lparr>logs := logs c @ [(level, msg)]\<rparr>"

definition rateLimitKey :: "RateLimitOptions \<Rightarrow> Context \<Rightarrow> string" where
  "rateLimitKey options c =
     (case keyPrefix options of None \<Rightarrow> ''rate_limit'' | Some p \<Rightarrow> if p = [] then ''rate_limit'' else p)
       @ '':'' @ getClientIdentifier c @ '':'' @ req_path c"

text \<open>The branch of a new or expired window.\<close>

definition new_window ::
  "RateLimitOptions \<Rightarrow> int \<Rightarrow> int \<Rightarrow> string \<Rightarrow> KVNamespace \<Rightarrow> Context \<Rightarrow> (exn + unit) \<times> Context" where
  "new_window options windowMs now key kv c =
     (let newData = \<lparr>count = 1, resetTime = now + windowMs\<rparr>;
          windowSeconds = \<lceil>real_of_int windowMs / 1000\<rceil>
      in case kv_put kv key newData windowSeconds of
           Inl err \<Rightarrow> (Inl (Thrown err), c)
         | Inr kv1 \<Rightarrow>
             (Inr (),
              log_line LogDebug ''Rate limit window started''
                (set_header ''X-RateLimit-Reset'' (show_int (resetTime newData div 1000))
                  (set_header ''X-RateLimit-Remaining'' (show_int (requests options - 1))
                    (set_header ''X-RateLimit-Limit'' (show_int (requests options))
                      (c\<lparr>RATE_LIMITER := Some kv1\<rparr>))))))"

text \<open>The branch of a window that has not expired.\<close>

definition existing_window ::
  "env \<Rightarrow> RateLimitOptions \<Rightarrow> int \<Rightarrow> string \<Rightarrow> KVNamespace \<Rightarrow> RateLimitData \<Rightarrow> Context
     \<Rightarrow> (exn + unit) \<times> Context" where
  "existing_window e options now key kv d c =
     (if count d \<ge> requests options then
        (let retryAfter = \<lceil>real_of_int (resetTime d - now) / 1000\<rceil>
         in (Inl (HTTPException 429 ''Rate limit exceeded''
                    (Some (RateLimitInfo retryAfter (requests options) (window options)
                             (Date_toISOString e (resetTime d))))),
             set_header ''Retry-After'' (show_int retryAfter)
               (set_header ''X-RateLimit-Reset'' (show_int (resetTime d div 1000))
                 (set_header ''X-RateLimit-Remaining'' ''0''
                   (set_header ''X-RateLimit-Limit'' (show_int (requests options))
                     (log_line LogWarn ''Rate limit exceeded'' c))))))
      else
        (let d1 = d\<lparr>count := count d + 1\<rparr>;
             ttl = \<lceil>real_of_int (resetTime d1 - now) / 1000\<rceil>
         in case (if ttl > 0 then kv_put kv key d1 ttl else Inr kv) of
              Inl err \<Rightarrow> (Inl (Thrown err), c)
            | Inr kv1 \<Rightarrow>
                (Inr (),
                 set_header ''X-RateLimit-Reset'' (show_int (resetTime d1 div 1000))
                   (set_header ''X-RateLimit-Remaining'' (show_int (requests options - count d1))
                     (set_header ''X-RateLimit-Limit'' (show_int (requests options))
                       (c\<lparr>RATE_LIMITER := Some kv1\<rparr>))))))"

text \<open>The \<open>try\<close> block of the middleware.\<close>

definition rateLimiter_try ::
  "env \<Rightarrow> RateLimitOptions \<Rightarrow> int \<Rightarrow> int \<Rightarrow> string \<Rightarrow> KVNamespace \<Rightarrow> Context
     \<Rightarrow> (exn + unit) \<times> Context" where
  "rateLimiter_try e options windowMs now key kv c =
     (case kv_get kv key of
        Inl err \<Rightarrow> (Inl (Thrown err), c)
      | Inr None \<Rightarrow> new_window options windowMs now key kv c
      | Inr (Some d) \<Rightarrow>
          if resetTime d < now then new_window options windowMs now key kv c
          else existing_window e options now key kv d c)"

text \<open>The value of \<open>options.skipIf?.(c)\<close> as a condition.\<close>

definition skipped :: "RateLimitOptions \<Rightarrow> Context \<Rightarrow> bool" where
  "skipped options c = (case skipIf options of None \<Rightarrow> False | Some p \<Rightarrow> p c)"

text \<open>
  The middleware returned by \<open>rateLimiter(options)\<close>, for the window length parsed
  from the options and the value of \<open>Date.now()\<close>. The result \<open>Inr ()\<close> is the call of
  \<open>next()\<close>: the request goes on to the handlers behind the limiter.
\<close>

definition rateLimiter_middleware ::
  "env \<Rightarrow> RateLimitOptions \<Rightarrow> int \<Rightarrow> int \<Rightarrow> Context \<Rightarrow> (exn + unit) \<times> Context" where
  "rateLimiter_middleware e options windowMs now c =
     (if skipped options c
      then (Inr (), log_line LogDebug ''Skipping rate limit check'' c)
      else
        (case RATE_LIMITER c of
           None \<Rightarrow>
             if NODE_ENV (validatedEnv c) = production
             then (Inl (HTTPException 500 ''Internal server error'' None),
                   log_line LogError ''Rate limiter KV namespace not configured in production'' c)
             else (Inr (),
                   log_line LogWarn
                     ''Rate limiter KV namespace not configured, skipping rate limiting'' c)
         | Some kv \<Rightarrow>
             (case rateLimiter_try e options windowMs now (rateLimitKey options c) kv c of
                (Inl (HTTPException st msg cs), c1) \<Rightarrow> (Inl (HTTPException st msg cs), c1)
              | (Inl (Thrown err), c1) \<Rightarrow>
                  (let c2 = log_line LogError ''Rate limiter error'' c1
                   in if NODE_ENV (validatedEnv c) = production
                      then (Inl (HTTPException 500 ''Internal server error'' None), c2)
                      else (Inr (),
                            log_line LogWarn ''Rate limiter failed open in development mode'' c2))
              | (Inr u, c1) \<Rightarrow> (Inr (), c1))))"

definition rateLimiter ::
  "env \<Rightarrow> RateLimitOptions \<Rightarrow> jserror + (int \<Rightarrow> Context \<Rightarrow> (exn + unit) \<times> Context)" where
  "rateLimiter e options =
     (case parseWindow (window options) of
        Inl err \<Rightarrow> Inl err
      | Inr windowMs \<Rightarrow> Inr (rateLimiter_middleware e options windowMs))"

section \<open>Notions used to state the properties\<close>

text \<open>
  The outcomes of the first \<open>m\<close> attempts of a retry sequence started in world \<open>w\<close>,
  whether an outcome before the last attempt leads to another attempt, and the value of
  \<open>lastResponse\<close> after a list of outcomes.
\<close>

definition attempt_outcomes ::
  "env \<Rightarrow> string \<Rightarrow> RequestInit \<Rightarrow> world \<Rightarrow> nat \<Rightarrow> (jserror + FetchResponse) list" where
  "attempt_outcomes e url options w m =
     map (\<lambda>j. fetch e (length (calls w) + j) url options) [0..<m]"

fun retried :: "FetchRetryOptions \<Rightarrow> jserror + FetchResponse \<Rightarrow> bool" where
  "retried ro (Inr response) = the_shouldRetry ro response"
| "retried ro (Inl err) = True"

fun latest_response ::
  "FetchResponse option \<Rightarrow> (jserror + FetchResponse) list \<Rightarrow> FetchResponse option" where
  "latest_response lr [] = lr"
| "latest_response lr (Inr response # os) = latest_response (Some response) os"
| "latest_response lr (Inl err # os) = latest_response lr os"


definition proxyInit :: "Context \<Rightarrow> (string \<times> string) list \<Rightarrow> string option \<Rightarrow> RequestInit" where
  "proxyInit c headers payload =
     \<lparr>init_method = req_method c, init_headers = headers, init_body = payload\<rparr>"

section \<open>Sample inputs\<close>

definition example_url :: string where
  "example_url =
     ''https://api.sim.dune.com/v1/evm/balances/0xd8da6bf26964af9d7eed9e03e53415d37aa96045''"

definition example_init :: RequestInit where
  "example_init = \<lparr>init_method = ''GET'', init_headers = [], init_body = None\<rparr>"

definition default_retry :: FetchRetryOptions where
  "default_retry = \<lparr>maxRetries = None, initialDelay = None, maxDelay = None,
                     backoffMultiplier = None, shouldRetry = None\<rparr>"

definition empty_world :: world where
  "empty_world = \<lparr>calls = [], sleeps = [], inFlightRequests = Map.empty, timers = []\<rparr>"

definition response_500 :: FetchResponse where
  "response_500 = \<lparr>status = 500, statusText = ''Internal Server Error'', body = None\<rparr>"

definition unreachable :: "nat \<Rightarrow> string \<Rightarrow> RequestInit \<Rightarrow> jserror + FetchResponse" where
  "unreachable n url options = Inl (TypeError ''fetch failed'')"

definition down_then_unreachable :: "nat \<Rightarrow> string \<Rightarrow> RequestInit \<Rightarrow> jserror + FetchResponse" where
  "down_then_unreachable n url options =
     (if n < 2 then Inr response_500 else Inl (TypeError ''fetch failed''))"

definition half_random :: "nat \<Rightarrow> real" where
  "half_random n = 1 / 2"

definition split_URL :: "string \<Rightarrow> URL" where
  "split_URL s = \<lparr>url_origin = take 24 s, pathname = drop 24 s, search = [], hash = []\<rparr>"

definition decode_sample :: "byte list \<Rightarrow> string" where
  "decode_sample bytes =
     (if bytes = [0x7B, 0x7D] then ''{}''
      else if bytes = [0x6E, 0x75, 0x6C, 0x6C] then ''null''
      else ''<html>'')"

definition parse_sample :: "string \<Rightarrow> jserror + json" where
  "parse_sample s =
     (if s = ''{}'' then Inr (JObject [])
      else if s = ''null'' then Inr JNull
      else Inl (SyntaxError ''Unexpected token''))"

definition stringify_sample :: "json \<Rightarrow> string" where
  "stringify_sample j = (if j = JObject [] then ''{}'' else ''null'')"

definition iso_sample :: "int \<Rightarrow> string" where
  "iso_sample t = ''1970-01-01T00:00:00.000Z''"

definition example_env :: env where
  "example_env =
     \<lparr>fetch = unreachable, Math_random = half_random, URL_new = split_URL,
      TextDecoder_decode = decode_sample, JSON_parse = parse_sample,
      JSON_stringify = stringify_sample, Date_toISOString = iso_sample\<rparr>"

definition example_context :: Context where
  "example_context =
     \<lparr>req_method = ''GET'',
      req_path = ''/v1/evm/balances/0xd8da6bf26964af9d7eed9e03e53415d37aa96045'',
      req_headers = [], req_text = Inr [], requestId = ''req-1'', subrequestCount = None,
      validatedEnv = \<lparr>DUNE_SIM_API_KEY = ''sim-key'', NODE_ENV = production\<rparr>,
      RATE_LIMITER = None, res_headers = Map.empty, logs = []\<rparr>"

definition example_URL :: URL where
  "example_URL =
     \<lparr>url_origin = ''https://api.sim.dune.com'',
      pathname = ''/v1/evm/balances/0xd8da6bf26964af9d7eed9e03e53415d37aa96045'',
      search = [], hash = []\<rparr>"

definition response_200 :: FetchResponse where
  "response_200 = \<lparr>status = 200, statusText = ''OK'', body = Some [Chunk [0x7B, 0x7D]]\<rparr>"

definition answers_200 :: "nat \<Rightarrow> string \<Rightarrow> RequestInit \<Rightarrow> jserror + FetchResponse" where
  "answers_200 n url options = Inr response_200"





definition accept_any :: "json \<Rightarrow> exn + json" where
  "accept_any d = Inr d"


definition example_path :: string where
  "example_path = ''/v1/evm/balances/0xd8da6bf26964af9d7eed9e03e53415d37aa96045''"

definition example_key :: string where
  "example_key =
     ''GET:https://api.sim.dune.com/v1/evm/balances/0xd8da6bf26964af9d7eed9e03e53415d37aa96045''"

definition cached_response :: Response where
  "cached_response =
     \<lparr>resp_status = 200,
      resp_headers = [(''Cache-Control'', ''private, no-cache''),
                      (''Content-Type'', ''application/json'')],
      resp_body = ''{}'', bodyUsed = False\<rparr>"

definition response_204 :: FetchResponse where
  "response_204 = \<lparr>status = 204, statusText = ''No Content'', body = None\<rparr>"

definition answers_204 :: "nat \<Rightarrow> string \<Rightarrow> RequestInit \<Rightarrow> jserror + FetchResponse" where
  "answers_204 n url options = Inr response_204"

definition response_304 :: FetchResponse where
  "response_304 = \<lparr>status = 304, statusText = ''Not Modified'', body = None\<rparr>"

definition answers_304 :: "nat \<Rightarrow> string \<Rightarrow> RequestInit \<Rightarrow> jserror + FetchResponse" where
  "answers_304 n url options = Inr response_304"

definition reject_all :: "json \<Rightarrow> exn + json" where
  "reject_all d = Inl (Thrown (ZodError [''Required'']))"

definition world_resolved :: world where
  "world_resolved = empty_world\<lparr>inFlightRequests := [example_key \<mapsto> Inr cached_response]\<rparr>"

definition world_rejected :: world where
  "world_rejected =
     empty_world\<lparr>inFlightRequests :=
       [example_key \<mapsto> Inl (HTTPException 500 ''Failed to proxy request'' None)]\<rparr>"


definition development_context :: Context where
  "development_context =
     example_context\<lparr>validatedEnv := \<lparr>DUNE_SIM_API_KEY = ''sim-key'', NODE_ENV = development\<rparr>\<rparr>"

definition api_options :: RateLimitOptions where
  "api_options = \<lparr>requests = 100, window = ''1m'', keyPrefix = Some ''api'', skipIf = None\<rparr>"

definition example_rate_key :: string where
  "example_rate_key =
     ''api:anonymous:/v1/evm/balances/0xd8da6bf26964af9d7eed9e03e53415d37aa96045''"

definition empty_kv :: KVNamespace where
  "empty_kv = \<lparr>entries = Map.empty, get_fault = None, put_fault = None\<rparr>"

definition kv_holding :: "RateLimitData \<Rightarrow> KVNamespace" where
  "kv_holding d = \<lparr>entries = [example_rate_key \<mapsto> (d, 60)], get_fault = None, put_fault = None\<rparr>"

definition failing_kv :: KVNamespace where
  "failing_kv = \<lparr>entries = Map.empty, get_fault = Some (Error ''KV unavailable''), put_fault = None\<rparr>"

section \<open>Checks of the helper functions\<close>

text \<open>
  \<open>str_includes\<close> is the substring test, and the text functions, the window parser,
  the cache headers and the retry predicate of the proxy give the expected values on
  sample inputs.
\<close>

lemma startsWith_iff: "startsWith s p \<longleftrightarrow> (\<exists>q. s = p @ q)"
  by (induction s p rule: startsWith.induct) auto

lemma str_includes_iff: "str_includes s sub \<longleftrightarrow> (\<exists>p q. s = p @ sub @ q)"
proof (induction s)
  case Nil
  then show ?case by auto
next
  case (Cons c cs)
  show ?case
  proof
    assume "str_includes (c # cs) sub"
    then consider "startsWith (c # cs) sub" | "str_includes cs sub" by auto
    then show "\<exists>p q. c # cs = p @ sub @ q"
    proof cases
      case 1
      then obtain q where "c # cs = sub @ q" by (auto simp: startsWith_iff)
      then have "c # cs = [] @ sub @ q" by simp
      then show ?thesis by blast
    next
      case 2
      then obtain p q where "cs = p @ sub @ q" using Cons.IH by blast
      then have "c # cs = (c # p) @ sub @ q" by simp
      then show ?thesis by blast
    qed
  next
    assume "\<exists>p q. c # cs = p @ sub @ q"
    then obtain p q where pq: "c # cs = p @ sub @ q" by blast
    show "str_includes (c # cs) sub"
    proof (cases p)
      case Nil
      then have "startsWith (c # cs) sub" using pq by (auto simp: startsWith_iff)
      then show ?thesis by simp
    next
      case (Cons a p')
      then have "cs = p' @ sub @ q" using pq by simp
      then have "str_includes cs sub" using Cons.IH by blast
      then show ?thesis by simp
    qed
  qed
qed

lemma show_int_examples:
  "show_int 45 = ''45''" "show_int 0 = ''0''" "show_int (- 7) = ''-7''" "show_int 3600 = ''3600''"
  by (simp_all add: show_int_def show_nat.simps digit_char_def)

lemma parseWindow_examples:
  "parseWindow ''1m'' = Inr 60000"
  "parseWindow ''1h'' = Inr 3600000"
  "parseWindow ''30s'' = Inr 30000"
  "parseWindow ''m'' = Inl (Error ''Invalid rate limit window format: m'')"
  "parseWindow ''10x'' = Inl (Error ''Invalid rate limit window format: 10x'')"
  by (simp_all add: parseWindow_def multipliers_def parseInt_def digit_value_def is_digit_def)

lemma rateLimiter_api:
  "rateLimiter e api_options = Inr (rateLimiter_middleware e api_options 60000)"
  by (simp add: rateLimiter_def api_options_def parseWindow_def multipliers_def parseInt_def
        digit_value_def is_digit_def)

lemma createCacheHeaders_examples:
  "createCacheHeaders ''/v1/evm/supported-chains/balances''
     = [(''Cache-Control'', ''public, max-age=3600, s-maxage=86400''),
        (''Content-Type'', ''application/json'')]"
  "createCacheHeaders example_path
     = [(''Cache-Control'', ''private, no-cache''), (''Content-Type'', ''application/json'')]"
  by (simp_all add: createCacheHeaders_def example_path_def show_nat.simps digit_char_def
        SUPPORTED_CHAINS_TTL_def SUPPORTED_CHAINS_STALE_TTL_def)

lemma proxyShouldRetry_examples:
  "proxyShouldRetry \<lparr>status = 429, statusText = [], body = None\<rparr>"
  "proxyShouldRetry \<lparr>status = 503, statusText = [], body = None\<rparr>"
  "\<not> proxyShouldRetry \<lparr>status = 501, statusText = [], body = None\<rparr>"
  "\<not> proxyShouldRetry \<lparr>status = 404, statusText = [], body = None\<rparr>"
  "\<not> proxyShouldRetry \<lparr>status = 200, statusText = [], body = None\<rparr>"
  by (simp_all add: proxyShouldRetry_def ok_def)


section \<open>Properties of the backoff calculator\<close>

lemma clampedDelay_nonneg:
  assumes "1 \<le> attempt" "0 \<le> i" "0 \<le> mx" "0 \<le> m"
  shows "0 \<le> clampedDelay attempt i mx m"
  using assms by (simp add: clampedDelay_def Let_def)

lemma calculateDelay_unrounded:
  assumes "0 \<le> (c::real)" "0 \<le> r" "r < 1"
  shows "0.75 * c \<le> c + c * 0.25 * (r * 2 - 1)" "c + c * 0.25 * (r * 2 - 1) \<le> 1.25 * c"
proof -
  have "c + c * 0.25 * (r * 2 - 1) = c * (0.75 + 0.5 * r)" by (simp add: algebra_simps)
  moreover have "c * 0.75 \<le> c * (0.75 + 0.5 * r)" using assms by (intro mult_left_mono) auto
  moreover have "c * (0.75 + 0.5 * r) \<le> c * 1.25" using assms by (intro mult_left_mono) auto
  ultimately show "0.75 * c \<le> c + c * 0.25 * (r * 2 - 1)" "c + c * 0.25 * (r * 2 - 1) \<le> 1.25 * c"
    by (simp_all add: mult.commute)
qed

text \<open>
  Claim C8, as amended. For a 1-based attempt, non-negative \<open>initialDelay\<close>,
  \<open>maxDelay\<close> and multiplier, and a random value in \<open>[0, 1)\<close>, the delay is the
  rounding of a value in \<open>[0.75 \<times> clamped, 1.25 \<times> clamped]\<close>: it lies between the
  roundings of the two ends, hence within one half of the interval, and it is never
  negative. Numbers are exact here; floating-point rounding error is not modelled.
\<close>

theorem calculateDelay_rounded_bounds:
  assumes "1 \<le> attempt" "0 \<le> i" "0 \<le> mx" "0 \<le> m"
      and "0 \<le> r" "r < 1"
  shows "round (0.75 * clampedDelay attempt i mx m) \<le> calculateDelay attempt i mx m r
       \<and> calculateDelay attempt i mx m r \<le> round (1.25 * clampedDelay attempt i mx m)
       \<and> 0.75 * clampedDelay attempt i mx m - 1/2 \<le> of_int (calculateDelay attempt i mx m r)
       \<and> of_int (calculateDelay attempt i mx m r) \<le> 1.25 * clampedDelay attempt i mx m + 1/2
       \<and> 0 \<le> calculateDelay attempt i mx m r"
proof -
  define c where "c = clampedDelay attempt i mx m"
  define x where "x = c + c * 0.25 * (r * 2 - 1)"
  have c0: "0 \<le> c" unfolding c_def using assms(1-4) by (rule clampedDelay_nonneg)
  have d: "calculateDelay attempt i mx m r = round x"
    by (simp add: calculateDelay_def Let_def c_def x_def)
  have lo: "0.75 * c \<le> x" and hi: "x \<le> 1.25 * c"
    unfolding x_def using calculateDelay_unrounded[OF c0 assms(5,6)] by simp_all
  have 1: "round (0.75 * c) \<le> round x" using lo by (rule round_mono)
  have 2: "round x \<le> round (1.25 * c)" using hi by (rule round_mono)
  have 3: "0.75 * c - 1/2 \<le> of_int (round x)"
    using of_int_round_ge[of x] lo by linarith
  have 4: "of_int (round x) \<le> 1.25 * c + 1/2"
    using of_int_round_le[of x] hi by linarith
  have "0 \<le> x" using lo c0 by simp
  then have "round (0::real) \<le> round x" by (rule round_mono)
  then have 5: "0 \<le> round x" by simp
  show ?thesis unfolding d c_def[symmetric] using 1 2 3 4 5 by simp
qed

text \<open>
  The theorem at the second attempt of the default policy, with the random value
  \<open>1/4\<close>.
\<close>

theorem calculateDelay_rounded_bounds_witness:
  "calculateDelay 2 1000 10000 2 (1/4) = 1750
   \<and> round (0.75 * clampedDelay 2 1000 10000 2) = 1500
   \<and> round (1.25 * clampedDelay 2 1000 10000 2) = 2500"
  using calculateDelay_rounded_bounds[of 2 1000 10000 2 "1/4"]
  by (simp add: calculateDelay_def clampedDelay_def Let_def round_def)

text \<open>
  Claim C8 as stated fails: with \<open>initialDelay = 3\<close>, \<open>maxDelay = 10\<close>, multiplier
  \<open>2\<close>, first attempt and random value \<open>0\<close>, the clamped delay is \<open>3\<close>, the
  unrounded value is \<open>2.25\<close> and the delay returned is \<open>2\<close>, below
  \<open>0.75 \<times> 3 = 2.25\<close>.
\<close>

theorem calculateDelay_below_interval:
  "calculateDelay 1 3 10 2 0 = 2
   \<and> clampedDelay 1 3 10 2 = 3
   \<and> \<not> (0.75 * clampedDelay 1 3 10 2 \<le> of_int (calculateDelay 1 3 10 2 0))"
  by (simp add: calculateDelay_def clampedDelay_def Let_def round_def)

section \<open>Properties of fetchWithRetry\<close>

lemma attempt_outcomes_Suc:
  assumes "length (calls w') = Suc (length (calls w))"
  shows "attempt_outcomes e url options w (Suc m)
         = fetch e (length (calls w)) url options # attempt_outcomes e url options w' m"
proof -
  have "[0..<Suc m] = 0 # map Suc [0..<m]"
    by (simp add: upt_conv_Cons map_Suc_upt del: upt_Suc)
  then show ?thesis
    using assms by (simp add: attempt_outcomes_def comp_def del: upt_Suc)
qed

lemma calls_do_sleep [simp]: "calls (do_sleep e ro a w) = calls w"
  by (simp add: do_sleep_def Let_def)

lemma do_fetch_fst [simp]:
  "fst (do_fetch e url options w) = fetch e (length (calls w)) url options"
  by (simp add: do_fetch_def)

lemma do_fetch_calls [simp]:
  "calls (snd (do_fetch e url options w)) = calls w @ [(url, options)]"
  by (simp add: do_fetch_def)

lemma retry_loop_past_end:
  "the_maxRetries ro < a \<Longrightarrow>
   retry_loop e url options ro a (Some err) lr w =
     (case lr of Some response \<Rightarrow> (Inr response, w) | None \<Rightarrow> (Inl err, w))"
  by (subst retry_loop.simps) (simp split: option.splits)

lemma retry_loop_exhausted:
  assumes "m = nat (the_maxRetries ro - a)" "a \<le> the_maxRetries ro"
      and "list_all (retried ro) (attempt_outcomes e url options w m)"
  shows "fst (retry_loop e url options ro a le lr w) =
         (case fetch e (length (calls w) + m) url options of
            Inr response \<Rightarrow> Inr response
          | Inl err \<Rightarrow>
              (case latest_response lr (attempt_outcomes e url options w m) of
                 Some response \<Rightarrow> Inr response
               | None \<Rightarrow> Inl err))"
  using assms
proof (induction m arbitrary: a le lr w)
  case 0
  then have a: "a = the_maxRetries ro" by simp
  show ?case
  proof (cases "do_fetch e url options w")
    case (Pair r w1)
    then have r: "r = fetch e (length (calls w)) url options"
      by (metis do_fetch_fst fst_conv)
    show ?thesis
      using Pair r a
      by (subst retry_loop.simps)
         (auto simp: attempt_outcomes_def retry_loop_past_end split: sum.splits option.splits)
  qed
next
  case (Suc m)
  then have lt: "a < the_maxRetries ro" and m: "m = nat (the_maxRetries ro - (a + 1))" by auto
  obtain r w1 where Pair: "do_fetch e url options w = (r, w1)" by (cases "do_fetch e url options w")
  then have r: "r = fetch e (length (calls w)) url options"
    by (metis do_fetch_fst fst_conv)
  have len: "length (calls (do_sleep e ro a w1)) = Suc (length (calls w))"
    using Pair by (metis calls_do_sleep do_fetch_calls length_append_singleton snd_conv)
  have len1: "length (calls w1) = Suc (length (calls w))"
    using len by simp
  have os: "attempt_outcomes e url options w (Suc m)
            = r # attempt_outcomes e url options (do_sleep e ro a w1) m"
    unfolding r using len by (rule attempt_outcomes_Suc)
  from Suc.prems(3) have hd: "retried ro r"
    and tl: "list_all (retried ro) (attempt_outcomes e url options (do_sleep e ro a w1) m)"
    unfolding os by simp_all
  have le': "a + 1 \<le> the_maxRetries ro" using lt by simp
  show ?case
  proof (cases r)
    case (Inl err)
    have "fst (retry_loop e url options ro a le lr w)
          = fst (retry_loop e url options ro (a + 1) (Some err) lr (do_sleep e ro a w1))"
      using Pair Inl lt by (subst retry_loop.simps) simp
    also note Suc.IH[OF m le' tl, of "Some err" lr]
    finally show ?thesis
      using Inl by (simp add: os len1 cong: sum.case_cong)
  next
    case (Inr response)
    have "fst (retry_loop e url options ro a le lr w)
          = fst (retry_loop e url options ro (a + 1) le (Some response) (do_sleep e ro a w1))"
      using Pair Inr lt hd by (subst retry_loop.simps) simp
    also note Suc.IH[OF m le' tl, of le "Some response"]
    finally show ?thesis
      using Inr by (simp add: os len1 cong: sum.case_cong)
  qed
qed

lemmas eval_retry = fetchWithRetry_def retry_loop.simps do_fetch_def do_sleep_def
  the_maxRetries_def the_shouldRetry_def defaultShouldRetry_def ok_def
  MAX_RETRIES_def NON_RETRYABLE_STATUS_def

text \<open>
  Claim C1, as amended. When a call of \<open>fetchWithRetry\<close> uses up all its attempts
  (there is at least one, and every outcome before the last attempt is retried: a thrown
  error, or a response that the retry predicate accepts), then: if the last attempt
  returned a response, that response is returned; if the last attempt threw, the most
  recent response of an earlier attempt is returned when there is one, and the last error
  is raised only when no attempt returned a response.
\<close>

theorem fetchWithRetry_exhausted:
  assumes "1 \<le> the_maxRetries ro"
      and "list_all (retried ro) (attempt_outcomes e url options w (nat (the_maxRetries ro - 1)))"
  shows "fst (fetchWithRetry e url options ro w) =
         (case fetch e (length (calls w) + nat (the_maxRetries ro - 1)) url options of
            Inr response \<Rightarrow> Inr response
          | Inl err \<Rightarrow>
              (case latest_response None
                      (attempt_outcomes e url options w (nat (the_maxRetries ro - 1))) of
                 Some response \<Rightarrow> Inr response
               | None \<Rightarrow> Inl err))"
  unfolding fetchWithRetry_def
  using retry_loop_exhausted[OF refl assms(1) assms(2)] by simp

text \<open>
  The theorem for an upstream that cannot be reached, under the default policy: all
  three attempts throw and the error is raised.
\<close>

theorem fetchWithRetry_exhausted_witness:
  "fst (fetchWithRetry example_env example_url example_init default_retry empty_world)
     = Inl (TypeError ''fetch failed'')"
  using fetchWithRetry_exhausted[of default_retry example_env example_url example_init
          empty_world]
  by (simp add: the_maxRetries_def MAX_RETRIES_def default_retry_def attempt_outcomes_def
        unreachable_def empty_world_def example_env_def numeral_2_eq_2)

text \<open>
  Claim C1 as stated fails: under the default policy, when the upstream answers 500 to
  the first two attempts and the third attempt throws, all three attempts are made, the
  last outcome is a thrown error, and the call returns the 500 response of the second
  attempt instead of raising.
\<close>

theorem fetchWithRetry_stale_response:
  "fetch (example_env\<lparr>fetch := down_then_unreachable\<rparr>) 2 example_url example_init
     = Inl (TypeError ''fetch failed'')
   \<and> length (calls (snd (fetchWithRetry (example_env\<lparr>fetch := down_then_unreachable\<rparr>)
          example_url example_init default_retry empty_world))) = 3
   \<and> fst (fetchWithRetry (example_env\<lparr>fetch := down_then_unreachable\<rparr>)
          example_url example_init default_retry empty_world) = Inr response_500"
  by (simp add: eval_retry default_retry_def empty_world_def down_then_unreachable_def
        response_500_def example_env_def)

section \<open>Properties of the bounded reader\<close>







section \<open>Properties of executeProxyRequest\<close>

lemma show_nat_ttl: "show_nat SUPPORTED_CHAINS_TTL = ''3600''"
  "show_nat SUPPORTED_CHAINS_STALE_TTL = ''86400''"
  by (simp_all add: show_nat.simps digit_char_def SUPPORTED_CHAINS_TTL_def
        SUPPORTED_CHAINS_STALE_TTL_def)

lemma Response_new_built:
  assumes "200 \<le> st" "st \<le> 599" "st \<noteq> 204" "st \<noteq> 205" "st \<noteq> 304"
  shows "Response_new content st hs
         = Inr \<lparr>resp_status = st, resp_headers = hs, resp_body = content, bodyUsed = False\<rparr>"
  using assms by (simp add: Response_new_def null_body_status_def)

lemma Response_new_Inr:
  assumes "Response_new content st hs = Inr r"
  shows "r = \<lparr>resp_status = st, resp_headers = hs, resp_body = content, bodyUsed = False\<rparr>"
  using assms by (auto simp: Response_new_def split: if_splits)

text \<open>
  The outcome of \<open>executeProxyRequest\<close> once a response has come out of the retry
  loop and its body has been read and parsed; an error thrown by \<open>new Response\<close>
  reaches the outer \<open>catch\<close>.
\<close>

lemma executeProxyRequest_after_read:
  assumes "requestBody c = Inr payload"
      and "fst (fetchWithRetry e (URL_toString url) (proxyInit c headers payload) proxyRetryOptions w)
             = Inr response"
      and "processResponse e response = Inr processed"
  shows "fst (executeProxyRequest e c url headers responseSchema w) =
           (if ok response then
              (case responseSchema (data processed) of
                 Inr validatedData \<Rightarrow>
                   map_sum (\<lambda>err. executeProxyRequest_catch c (Thrown err)) id
                     (Response_new (JSON_stringify e validatedData) (status response)
                        (createCacheHeaders (pathname url)))
               | Inl ex \<Rightarrow>
                   (case ex of
                      Thrown (ZodError issues) \<Rightarrow>
                        Inl (HTTPException 502 ''Invalid response schema from upstream API''
                               (if NODE_ENV (validatedEnv c) = development
                                then Some (ZodIssues issues) else None))
                    | _ \<Rightarrow> Inl (executeProxyRequest_catch c ex)))
            else map_sum (\<lambda>err. executeProxyRequest_catch c (Thrown err)) id
                   (Response_new (JSON_stringify e (data processed)) (status response)
                      [(''Content-Type'', ''application/json'')]))"
proof -
  obtain r w1 where fw: "fetchWithRetry e (URL_toString url) (proxyInit c headers payload)
                            proxyRetryOptions w = (r, w1)"
    by (cases "fetchWithRetry e (URL_toString url) (proxyInit c headers payload) proxyRetryOptions w")
  with assms(2) have r: "r = Inr response" by simp
  have t: "fst (executeProxyRequest_try e c url headers responseSchema w) =
           (if ok response then
              (case responseSchema (data processed) of
                 Inr validatedData \<Rightarrow>
                   map_sum Thrown id
                     (Response_new (JSON_stringify e validatedData) (status response)
                        (createCacheHeaders (pathname url)))
               | Inl ex \<Rightarrow>
                   (case ex of
                      Thrown (ZodError issues) \<Rightarrow>
                        Inl (HTTPException 502 ''Invalid response schema from upstream API''
                               (if NODE_ENV (validatedEnv c) = development
                                then Some (ZodIssues issues) else None))
                    | _ \<Rightarrow> Inl ex))
            else map_sum Thrown id
                   (Response_new (JSON_stringify e (data processed)) (status response)
                      [(''Content-Type'', ''application/json'')]))"
    using assms(1,3) fw r
    by (simp add: executeProxyRequest_try_def proxyInit_def[symmetric]
          split: sum.splits exn.splits jserror.splits)
  have x: "fst (executeProxyRequest e c url headers responseSchema w)
           = (case fst (executeProxyRequest_try e c url headers responseSchema w) of
                Inl ex \<Rightarrow> Inl (executeProxyRequest_catch c ex)
              | Inr res \<Rightarrow> Inr res)"
    by (simp add: executeProxyRequest_def split: prod.splits sum.splits)
  have m: "(case map_sum Thrown id b of
                    Inl ex \<Rightarrow> Inl (executeProxyRequest_catch c ex)
                  | Inr res \<Rightarrow> Inr res)
               = map_sum (\<lambda>err. executeProxyRequest_catch c (Thrown err)) id b"
    for b :: "jserror + Response"
    by (cases b) simp_all
  show ?thesis
    unfolding x t
    by (simp add: m executeProxyRequest_catch_def
          split: sum.splits exn.splits jserror.splits)
qed

lemma executeProxyRequest_returns:
  assumes "fst (executeProxyRequest e c url headers responseSchema w) = Inr result"
  shows "\<exists>payload response processed.
           requestBody c = Inr payload
         \<and> fst (fetchWithRetry e (URL_toString url) (proxyInit c headers payload)
                  proxyRetryOptions w) = Inr response
         \<and> processResponse e response = Inr processed"
  using assms
  by (auto simp: executeProxyRequest_def executeProxyRequest_try_def proxyInit_def
        split: sum.splits prod.splits)

text \<open>
  Claim C2, as amended. When the upstream response that comes out of the retry loop has
  a 2xx status and its body has been read and parsed: if the schema accepts the parsed
  data and the status is neither 204 nor 205, the result is a response with the upstream
  status, the header \<open>Content-Type: application/json\<close> and a \<open>Cache-Control\<close>
  header that is \<open>public, max-age=3600, s-maxage=86400\<close> when the path of the URL
  contains \<open>supported-chains\<close> and \<open>private, no-cache\<close> otherwise; if the schema
  rejects the data with a \<open>ZodError\<close>, the request fails with the 502 exception
  \<open>Invalid response schema from upstream API\<close>, whose cause is the list of issues in
  development mode and absent otherwise. Conversely, whenever \<open>executeProxyRequest\<close>
  returns a response with a 2xx status, it was built on this path.
\<close>

theorem executeProxyRequest_2xx:
  "(requestBody c = Inr payload
      \<and> fst (fetchWithRetry e (URL_toString url) (proxyInit c headers payload)
               proxyRetryOptions w) = Inr response
      \<and> ok response
      \<and> processResponse e response = Inr processed \<longrightarrow>
      (status response \<noteq> 204 \<and> status response \<noteq> 205
         \<and> responseSchema (data processed) = Inr validatedData \<longrightarrow>
         fst (executeProxyRequest e c url headers responseSchema w)
           = Inr \<lparr>resp_status = status response,
                  resp_headers =
                    [(''Cache-Control'',
                      if str_includes (pathname url) ''supported-chains''
                      then ''public, max-age=3600, s-maxage=86400''
                      else ''private, no-cache''),
                     (''Content-Type'', ''application/json'')],
                  resp_body = JSON_stringify e validatedData,
                  bodyUsed = False\<rparr>)
    \<and> (responseSchema (data processed) = Inl (Thrown (ZodError issues)) \<longrightarrow>
         fst (executeProxyRequest e c url headers responseSchema w)
           = Inl (HTTPException 502 ''Invalid response schema from upstream API''
                    (if NODE_ENV (validatedEnv c) = development
                     then Some (ZodIssues issues) else None))))
   \<and> (fst (executeProxyRequest e c url headers responseSchema w) = Inr result
      \<and> 200 \<le> resp_status result \<and> resp_status result \<le> 299 \<longrightarrow>
      (\<exists>body_read response processed v.
          requestBody c = Inr body_read
        \<and> fst (fetchWithRetry e (URL_toString url) (proxyInit c headers body_read)
                 proxyRetryOptions w) = Inr response
        \<and> ok response
        \<and> processResponse e response = Inr processed
        \<and> responseSchema (data processed) = Inr v
        \<and> result = \<lparr>resp_status = status response,
                        resp_headers = createCacheHeaders (pathname url),
                        resp_body = JSON_stringify e v,
                        bodyUsed = False\<rparr>))"
proof (intro conjI impI)
  assume h: "requestBody c = Inr payload
      \<and> fst (fetchWithRetry e (URL_toString url) (proxyInit c headers payload)
               proxyRetryOptions w) = Inr response
      \<and> ok response
      \<and> processResponse e response = Inr processed"
  then have eq: "fst (executeProxyRequest e c url headers responseSchema w) =
              (case responseSchema (data processed) of
                 Inr validatedData \<Rightarrow>
                   map_sum (\<lambda>err. executeProxyRequest_catch c (Thrown err)) id
                     (Response_new (JSON_stringify e validatedData) (status response)
                        (createCacheHeaders (pathname url)))
               | Inl ex \<Rightarrow>
                   (case ex of
                      Thrown (ZodError issues) \<Rightarrow>
                        Inl (HTTPException 502 ''Invalid response schema from upstream API''
                               (if NODE_ENV (validatedEnv c) = development
                                then Some (ZodIssues issues) else None))
                    | _ \<Rightarrow> Inl (executeProxyRequest_catch c ex)))"
    using executeProxyRequest_after_read[of c payload e url headers w response processed
            responseSchema]
    by simp
  {
    assume v: "status response \<noteq> 204 \<and> status response \<noteq> 205
         \<and> responseSchema (data processed) = Inr validatedData"
    have "Response_new (JSON_stringify e validatedData) (status response)
            (createCacheHeaders (pathname url))
          = Inr \<lparr>resp_status = status response,
                 resp_headers = createCacheHeaders (pathname url),
                 resp_body = JSON_stringify e validatedData, bodyUsed = False\<rparr>"
      using h v by (intro Response_new_built) (auto simp: ok_def)
    then show "fst (executeProxyRequest e c url headers responseSchema w)
           = Inr \<lparr>resp_status = status response,
                  resp_headers =
                    [(''Cache-Control'',
                      if str_includes (pathname url) ''supported-chains''
                      then ''public, max-age=3600, s-maxage=86400''
                      else ''private, no-cache''),
                     (''Content-Type'', ''application/json'')],
                  resp_body = JSON_stringify e validatedData,
                  bodyUsed = False\<rparr>"
      using eq v by (simp add: createCacheHeaders_def show_nat_ttl)
  }
  {
    assume "responseSchema (data processed) = Inl (Thrown (ZodError issues))"
    then show "fst (executeProxyRequest e c url headers responseSchema w)
           = Inl (HTTPException 502 ''Invalid response schema from upstream API''
                    (if NODE_ENV (validatedEnv c) = development
                     then Some (ZodIssues issues) else None))"
      using eq by simp
  }
next
  assume h: "fst (executeProxyRequest e c url headers responseSchema w) = Inr result
      \<and> 200 \<le> resp_status result \<and> resp_status result \<le> 299"
  then obtain body_read response processed where
    p: "requestBody c = Inr body_read"
       "fst (fetchWithRetry e (URL_toString url) (proxyInit c headers body_read)
                 proxyRetryOptions w) = Inr response"
       "processResponse e response = Inr processed"
    using executeProxyRequest_returns by blast
  note eq = executeProxyRequest_after_read[OF p, of responseSchema]
  have okr: "ok response"
  proof (rule ccontr)
    assume n: "\<not> ok response"
    then have "Response_new (JSON_stringify e (data processed)) (status response)
                 [(''Content-Type'', ''application/json'')] = Inr result"
      using eq h by (auto simp: map_sum_def split: sum.splits)
    then have "resp_status result = status response"
      by (auto dest: Response_new_Inr)
    then show False using n h by (simp add: ok_def)
  qed
  then obtain v where v: "responseSchema (data processed) = Inr v"
    and b: "Response_new (JSON_stringify e v) (status response)
              (createCacheHeaders (pathname url)) = Inr result"
    using eq h by (auto simp: map_sum_def split: sum.splits exn.splits jserror.splits)
  from b have "result = \<lparr>resp_status = status response,
                        resp_headers = createCacheHeaders (pathname url),
                        resp_body = JSON_stringify e v,
                        bodyUsed = False\<rparr>"
    by (rule Response_new_Inr)
  with p okr v show "\<exists>body_read response processed v.
          requestBody c = Inr body_read
        \<and> fst (fetchWithRetry e (URL_toString url) (proxyInit c headers body_read)
                 proxyRetryOptions w) = Inr response
        \<and> ok response
        \<and> processResponse e response = Inr processed
        \<and> responseSchema (data processed) = Inr v
        \<and> result = \<lparr>resp_status = status response,
                        resp_headers = createCacheHeaders (pathname url),
                        resp_body = JSON_stringify e v,
                        bodyUsed = False\<rparr>"
    by blast
qed


lemmas eval_proxy = executeProxyRequest_def executeProxyRequest_try_def requestBody_def
  processResponse_def proxyRetryOptions_def proxyShouldRetry_def createCacheHeaders_def
  URL_toString_def MAX_RESPONSE_SIZE_def proxyInit_def Response_new_def null_body_status_def

lemmas eval_samples = example_env_def example_context_def example_URL_def empty_world_def
  decode_sample_def parse_sample_def stringify_sample_def accept_any_def

lemma sample_200:
  "fst (fetchWithRetry (example_env\<lparr>fetch := answers_200\<rparr>) (URL_toString example_URL)
          (proxyInit example_context [] None) proxyRetryOptions empty_world) = Inr response_200"
  by (simp add: eval_retry eval_proxy eval_samples answers_200_def response_200_def)

lemma sample_200_processed:
  "processResponse (example_env\<lparr>fetch := answers_200\<rparr>) response_200
     = Inr \<lparr>data = JObject [], bodyText = ''{}'', totalSize = 2\<rparr>"
  by (simp add: eval_proxy eval_samples response_200_def)

text \<open>
  The theorem of claim C2 for an upstream that answers 200 with the body \<open>{}\<close>, with a
  schema that accepts it and with a schema that rejects it.
\<close>

theorem executeProxyRequest_2xx_witness:
  "fst (executeProxyRequest (example_env\<lparr>fetch := answers_200\<rparr>) example_context example_URL []
          accept_any empty_world)
     = Inr \<lparr>resp_status = 200,
            resp_headers = [(''Cache-Control'', ''private, no-cache''),
                            (''Content-Type'', ''application/json'')],
            resp_body = ''{}'', bodyUsed = False\<rparr>
   \<and> fst (executeProxyRequest (example_env\<lparr>fetch := answers_200\<rparr>) example_context example_URL []
          reject_all empty_world)
     = Inl (HTTPException 502 ''Invalid response schema from upstream API'' None)"
proof -
  have hyp: "requestBody example_context = Inr None
      \<and> fst (fetchWithRetry (example_env\<lparr>fetch := answers_200\<rparr>) (URL_toString example_URL)
               (proxyInit example_context [] None) proxyRetryOptions empty_world)
          = Inr response_200
      \<and> ok response_200
      \<and> processResponse (example_env\<lparr>fetch := answers_200\<rparr>) response_200
          = Inr \<lparr>data = JObject [], bodyText = ''{}'', totalSize = 2\<rparr>"
    using sample_200 sample_200_processed
    by (simp add: requestBody_def example_context_def ok_def response_200_def)
  have a: "fst (executeProxyRequest (example_env\<lparr>fetch := answers_200\<rparr>) example_context
             example_URL [] accept_any empty_world)
     = Inr \<lparr>resp_status = 200,
            resp_headers = [(''Cache-Control'', ''private, no-cache''),
                            (''Content-Type'', ''application/json'')],
            resp_body = ''{}'', bodyUsed = False\<rparr>"
    using executeProxyRequest_2xx[where c = example_context and payload = None
            and e = "example_env\<lparr>fetch := answers_200\<rparr>" and url = example_URL
            and headers = "[]" and w = empty_world and response = response_200
            and processed = "\<lparr>data = JObject [], bodyText = ''{}'', totalSize = 2\<rparr>"
            and responseSchema = accept_any and validatedData = "JObject []"]
          hyp
    by (simp add: response_200_def accept_any_def example_URL_def example_env_def
          stringify_sample_def)
  have b: "fst (executeProxyRequest (example_env\<lparr>fetch := answers_200\<rparr>) example_context
             example_URL [] reject_all empty_world)
     = Inl (HTTPException 502 ''Invalid response schema from upstream API'' None)"
    using executeProxyRequest_2xx[where c = example_context and payload = None
            and e = "example_env\<lparr>fetch := answers_200\<rparr>" and url = example_URL
            and headers = "[]" and w = empty_world and response = response_200
            and processed = "\<lparr>data = JObject [], bodyText = ''{}'', totalSize = 2\<rparr>"
            and responseSchema = reject_all and issues = "[''Required'']"]
          hyp
    by (simp add: reject_all_def example_context_def)
  from a b show ?thesis by blast
qed

text \<open>
  Claim C2 as stated fails: when the upstream answers 204, a 2xx status, without a body,
  the parsed data is \<open>null\<close>; with a schema that accepts it, \<open>new Response\<close> is given
  the text \<open>null\<close> for a status that admits no body and throws, and the request fails
  with the 500 exception of the outer \<open>catch\<close> instead of a response with status 204.
\<close>

theorem executeProxyRequest_204_fails:
  "fst (fetchWithRetry (example_env\<lparr>fetch := answers_204\<rparr>) (URL_toString example_URL)
          (proxyInit example_context [] None) proxyRetryOptions empty_world) = Inr response_204
   \<and> ok response_204
   \<and> processResponse (example_env\<lparr>fetch := answers_204\<rparr>) response_204
       = Inr \<lparr>data = JNull, bodyText = [], totalSize = 0\<rparr>
   \<and> accept_any JNull = Inr JNull
   \<and> fst (executeProxyRequest (example_env\<lparr>fetch := answers_204\<rparr>) example_context
          example_URL [] accept_any empty_world)
       = Inl (HTTPException 500 ''Failed to proxy request'' None)"
  by (simp add: eval_retry eval_proxy eval_samples answers_204_def response_204_def
        executeProxyRequest_catch_def)





text \<open>
  The status 304 is left out of the theorem of claim C3 for the same reason as 204 and
  205 are left out of that of claim C2: an upstream 304 is not passed through.
\<close>

lemma executeProxyRequest_304_fails:
  "fst (executeProxyRequest (example_env\<lparr>fetch := answers_304\<rparr>) example_context
          example_URL [] accept_any empty_world)
     = Inl (HTTPException 500 ''Failed to proxy request'' None)"
  by (simp add: eval_retry eval_proxy eval_samples answers_304_def response_304_def
        executeProxyRequest_catch_def ok_def)

section \<open>Properties of proxyRequest\<close>





lemma requestKey_count [simp]:
  "requestKey e (c\<lparr>subrequestCount := n\<rparr>) path queryParams = requestKey e c path queryParams"
  by (simp add: requestKey_def)

lemma proxyHeaders_count [simp]: "proxyHeaders (c\<lparr>subrequestCount := n\<rparr>) = proxyHeaders c"
  by (simp add: proxyHeaders_def)

lemma example_key_eq:
  "requestKey example_env example_context example_path None = example_key"
  by (simp add: requestKey_def proxyURL_def example_env_def example_context_def example_path_def
        example_key_def split_URL_def URL_toString_def DUNE_SIM_BASE_ENDPOINT_def)

lemma example_context_facts:
  "requestCount example_context = 0"
  "shouldDeduplicate (req_method example_context)"
  by (simp_all add: requestCount_def example_context_def shouldDeduplicate_def)

lemma cached_clone: "clone cached_response = Inr cached_response"
  by (simp add: clone_def cached_response_def)

lemma example_world_facts:
  "inFlightRequests world_resolved example_key = Some (Inr cached_response)"
  "inFlightRequests world_rejected example_key
     = Some (Inl (HTTPException 500 ''Failed to proxy request'' None))"
  "calls world_resolved = []" "calls world_rejected = []"
  by (simp_all add: world_resolved_def world_rejected_def empty_world_def)

text \<open>
  Claim C4. When the subrequest counter of the request is at or above the limit of 45,
  \<open>proxyRequest\<close> fails with the 429 exception whose cause carries the limit and the
  current count, leaves the context, and so the counter, as it was, and leaves the
  world as it was: no outbound call is made. When the counter is below the limit, it is
  set to one more and the request goes on to the deduplication lookup and the upstream
  call with that context.
\<close>

theorem proxyRequest_subrequest_limit:
  "(45 \<le> requestCount c \<longrightarrow>
       fst (proxyRequest e c path responseSchema queryParams w)
         = Inl (HTTPException 429 ''Too many subrequests in this request''
                  (Some (SubrequestLimit 45 (requestCount c))))
     \<and> fst (snd (proxyRequest e c path responseSchema queryParams w)) = c
     \<and> snd (snd (proxyRequest e c path responseSchema queryParams w)) = w
     \<and> calls (snd (snd (proxyRequest e c path responseSchema queryParams w))) = calls w)
   \<and> (requestCount c < 45 \<longrightarrow>
       fst (snd (proxyRequest e c path responseSchema queryParams w))
         = c\<lparr>subrequestCount := Some (requestCount c + 1)\<rparr>
     \<and> (fst (proxyRequest e c path responseSchema queryParams w),
         snd (snd (proxyRequest e c path responseSchema queryParams w)))
         = proxyRequest_dispatch e (c\<lparr>subrequestCount := Some (requestCount c + 1)\<rparr>) path
             responseSchema queryParams w)"
  by (simp add: proxyRequest_def MAX_SUBREQUESTS_def Let_def split: prod.splits)

text \<open>The theorem at a counter of 45 and at a counter of 44.\<close>

theorem proxyRequest_subrequest_limit_witness:
  "fst (proxyRequest example_env (example_context\<lparr>subrequestCount := Some 45\<rparr>) example_path
          accept_any None empty_world)
     = Inl (HTTPException 429 ''Too many subrequests in this request''
              (Some (SubrequestLimit 45 45)))
   \<and> snd (proxyRequest example_env (example_context\<lparr>subrequestCount := Some 45\<rparr>) example_path
          accept_any None empty_world)
     = (example_context\<lparr>subrequestCount := Some 45\<rparr>, empty_world)
   \<and> subrequestCount (fst (snd (proxyRequest example_env
          (example_context\<lparr>subrequestCount := Some 44\<rparr>) example_path accept_any None
          empty_world))) = Some 45"
  using proxyRequest_subrequest_limit[of "example_context\<lparr>subrequestCount := Some 45\<rparr>"
          example_env example_path accept_any None empty_world]
        proxyRequest_subrequest_limit[of "example_context\<lparr>subrequestCount := Some 44\<rparr>"
          example_env example_path accept_any None empty_world]
  by (simp add: requestCount_def prod_eq_iff)

text \<open>
  Claim C10. Every call of \<open>proxyRequest\<close> that passes the subrequest check raises the
  counter by exactly one. This includes a call that is answered from an in-flight
  request, that is, one that finds a resolved entry whose response it can clone: the
  counter goes up although no outbound call is made.
\<close>

theorem proxyRequest_counts_invocations:
  "(requestCount c < MAX_SUBREQUESTS \<longrightarrow>
      requestCount (fst (snd (proxyRequest e c path responseSchema queryParams w)))
        = requestCount c + 1)
   \<and> (requestCount c < MAX_SUBREQUESTS \<and> shouldDeduplicate (req_method c)
       \<and> inFlightRequests w (requestKey e c path queryParams) = Some (Inr response)
       \<and> clone response = Inr copy \<longrightarrow>
      requestCount (fst (snd (proxyRequest e c path responseSchema queryParams w)))
        = requestCount c + 1
    \<and> calls (snd (snd (proxyRequest e c path responseSchema queryParams w))) = calls w
    \<and> fst (proxyRequest e c path responseSchema queryParams w) = Inr copy)"
  by (simp add: proxyRequest_def proxyRequest_dispatch_def reuseInFlight_def requestCount_def
        Let_def split: prod.splits)

text \<open>The theorem for a request that finds a resolved in-flight entry.\<close>

theorem proxyRequest_counts_invocations_witness:
  "requestCount (fst (snd (proxyRequest example_env example_context example_path accept_any None
          world_resolved))) = 1
   \<and> calls (snd (snd (proxyRequest example_env example_context example_path accept_any None
          world_resolved))) = []
   \<and> fst (proxyRequest example_env example_context example_path accept_any None world_resolved)
       = Inr cached_response"
  using proxyRequest_counts_invocations[where c = example_context and e = example_env
          and path = example_path and responseSchema = accept_any and queryParams = None
          and w = world_resolved and response = cached_response and copy = cached_response]
  by (simp add: example_key_eq example_context_facts example_world_facts MAX_SUBREQUESTS_def
        cached_clone)





section \<open>Properties of the rate limiter\<close>

lemma set_header_fields [simp]:
  "RATE_LIMITER (set_header name v c) = RATE_LIMITER c"
  "logs (set_header name v c) = logs c"
  "validatedEnv (set_header name v c) = validatedEnv c"
  "res_headers (set_header name v c) = (res_headers c)(name \<mapsto> v)"
  by (simp_all add: set_header_def)

lemma log_line_fields [simp]:
  "RATE_LIMITER (log_line level msg c) = RATE_LIMITER c"
  "logs (log_line level msg c) = logs c @ [(level, msg)]"
  "validatedEnv (log_line level msg c) = validatedEnv c"
  "res_headers (log_line level msg c) = res_headers c"
  by (simp_all add: log_line_def)

lemma rateLimiter_try_thrown:
  assumes "rateLimiter_try e options windowMs now key kv c = (Inl (Thrown err), c1)"
  shows "c1 = c"
  using assms
  by (auto simp: rateLimiter_try_def new_window_def existing_window_def Let_def
        split: sum.splits option.splits if_splits)

lemma rateLimiter_try_get_fault:
  "get_fault kv = Some err \<Longrightarrow>
   rateLimiter_try e options windowMs now key kv c = (Inl (Thrown err), c)"
  by (simp add: rateLimiter_try_def kv_get_def)

lemma rateLimiter_middleware_configured:
  assumes "\<not> skipped options c" "RATE_LIMITER c = Some kv"
  shows "rateLimiter_middleware e options windowMs now c =
           (case rateLimiter_try e options windowMs now (rateLimitKey options c) kv c of
              (Inl (HTTPException st msg cs), c1) \<Rightarrow> (Inl (HTTPException st msg cs), c1)
            | (Inl (Thrown err), c1) \<Rightarrow>
                (let c2 = log_line LogError ''Rate limiter error'' c1
                 in if NODE_ENV (validatedEnv c) = production
                    then (Inl (HTTPException 500 ''Internal server error'' None), c2)
                    else (Inr (),
                          log_line LogWarn ''Rate limiter failed open in development mode'' c2))
            | (Inr u, c1) \<Rightarrow> (Inr (), c1))"
  using assms by (simp add: rateLimiter_middleware_def)

lemma rateLimiter_try_new_window:
  assumes "get_fault kv = None" "put_fault kv = None"
      and "entries kv key = None \<or> (\<exists>d t. entries kv key = Some (d, t) \<and> resetTime d < now)"
  shows "rateLimiter_try e options windowMs now key kv c = new_window options windowMs now key kv c"
  using assms by (auto simp: rateLimiter_try_def kv_get_def)

lemma rateLimiter_try_existing_window:
  assumes "get_fault kv = None" "entries kv key = Some (d, t)" "now \<le> resetTime d"
  shows "rateLimiter_try e options windowMs now key kv c = existing_window e options now key kv d c"
  using assms by (auto simp: rateLimiter_try_def kv_get_def)

lemma ceiling_pos_iff: "0 < \<lceil>real_of_int x / 1000\<rceil> \<longleftrightarrow> 0 < x"
  by (simp add: ceiling_less_iff less_ceiling_iff)

lemma example_rate_key_eq [simp]:
  "rateLimitKey api_options (example_context\<lparr>RATE_LIMITER := x\<rparr>) = example_rate_key"
  "rateLimitKey api_options (development_context\<lparr>RATE_LIMITER := x\<rparr>) = example_rate_key"
  by (simp_all add: rateLimitKey_def api_options_def example_context_def development_context_def
        example_rate_key_def getClientIdentifier_def req_header_def Let_def)

lemma api_options_fields [simp]:
  "requests api_options = 100" "window api_options = ''1m''"
  by (simp_all add: api_options_def)

lemma api_not_skipped [simp]: "\<not> skipped api_options c"
  by (simp add: skipped_def api_options_def)

lemma kv_holding_fields [simp]:
  "entries (kv_holding d) example_rate_key = Some (d, 60)"
  "get_fault (kv_holding d) = None" "put_fault (kv_holding d) = None"
  by (simp_all add: kv_holding_def)

lemma sample_context_fields [simp]:
  "NODE_ENV (validatedEnv example_context) = production"
  "NODE_ENV (validatedEnv development_context) = development"
  "logs example_context = []" "logs development_context = []"
  by (simp_all add: example_context_def development_context_def)

text \<open>
  Claim C6, as amended. For a check that is not skipped, against a configured store
  whose reads and writes succeed: when there is no record under the key or its
  \<open>resetTime\<close> is before \<open>now\<close>, the record \<open>{count: 1, resetTime: now + windowMs}\<close>
  is written with a time-to-live of the window in seconds, the request is allowed and
  the remaining header shows \<open>limit - 1\<close>. When the record is live (\<open>resetTime\<close> not
  before \<open>now\<close>) and its count is below the limit, the request is allowed and the
  remaining header shows the limit minus the incremented count; the incremented record
  is written, with a time-to-live of \<open>ceil((resetTime - now) / 1000)\<close> seconds, when
  \<open>resetTime\<close> is after \<open>now\<close>, and nothing is written when \<open>resetTime = now\<close>.
  When the record is live and its count is at or above the limit, the request is denied
  with the 429 exception whose cause and \<open>Retry-After\<close> header carry
  \<open>ceil((resetTime - now) / 1000)\<close>, and the store is left as it was.
\<close>

theorem rateLimiter_window:
  assumes "\<not> skipped options c" "RATE_LIMITER c = Some kv"
      and "get_fault kv = None" "put_fault kv = None"
  shows
    "(entries kv (rateLimitKey options c) = None
        \<or> (\<exists>d t. entries kv (rateLimitKey options c) = Some (d, t) \<and> resetTime d < now) \<longrightarrow>
        fst (rateLimiter_middleware e options windowMs now c) = Inr ()
      \<and> RATE_LIMITER (snd (rateLimiter_middleware e options windowMs now c))
          = Some (kv\<lparr>entries := (entries kv)(rateLimitKey options c \<mapsto>
                    (\<lparr>count = 1, resetTime = now + windowMs\<rparr>,
                     \<lceil>real_of_int windowMs / 1000\<rceil>))\<rparr>)
      \<and> res_headers (snd (rateLimiter_middleware e options windowMs now c))
            ''X-RateLimit-Remaining'' = Some (show_int (requests options - 1)))
   \<and> (entries kv (rateLimitKey options c) = Some (d, t) \<and> now \<le> resetTime d
        \<and> count d < requests options \<longrightarrow>
        fst (rateLimiter_middleware e options windowMs now c) = Inr ()
      \<and> RATE_LIMITER (snd (rateLimiter_middleware e options windowMs now c))
          = Some (if now < resetTime d
                  then kv\<lparr>entries := (entries kv)(rateLimitKey options c \<mapsto>
                            (d\<lparr>count := count d + 1\<rparr>,
                             \<lceil>real_of_int (resetTime d - now) / 1000\<rceil>))\<rparr>
                  else kv)
      \<and> res_headers (snd (rateLimiter_middleware e options windowMs now c))
            ''X-RateLimit-Remaining'' = Some (show_int (requests options - (count d + 1))))
   \<and> (entries kv (rateLimitKey options c) = Some (d, t) \<and> now \<le> resetTime d
        \<and> requests options \<le> count d \<longrightarrow>
        fst (rateLimiter_middleware e options windowMs now c)
          = Inl (HTTPException 429 ''Rate limit exceeded''
                   (Some (RateLimitInfo \<lceil>real_of_int (resetTime d - now) / 1000\<rceil>
                            (requests options) (window options)
                            (Date_toISOString e (resetTime d)))))
      \<and> RATE_LIMITER (snd (rateLimiter_middleware e options windowMs now c)) = Some kv
      \<and> res_headers (snd (rateLimiter_middleware e options windowMs now c)) ''Retry-After''
          = Some (show_int \<lceil>real_of_int (resetTime d - now) / 1000\<rceil>))"
proof (intro conjI impI)
  note mw = rateLimiter_middleware_configured[OF assms(1,2), of e windowMs now]
  {
    assume h: "entries kv (rateLimitKey options c) = None
        \<or> (\<exists>d t. entries kv (rateLimitKey options c) = Some (d, t) \<and> resetTime d < now)"
    have eq: "rateLimiter_middleware e options windowMs now c
              = new_window options windowMs now (rateLimitKey options c) kv c"
      unfolding mw rateLimiter_try_new_window[OF assms(3,4) h]
      using assms(4) by (simp add: new_window_def kv_put_def Let_def)
    show "fst (rateLimiter_middleware e options windowMs now c) = Inr ()"
      and "RATE_LIMITER (snd (rateLimiter_middleware e options windowMs now c))
          = Some (kv\<lparr>entries := (entries kv)(rateLimitKey options c \<mapsto>
                    (\<lparr>count = 1, resetTime = now + windowMs\<rparr>,
                     \<lceil>real_of_int windowMs / 1000\<rceil>))\<rparr>)"
      and "res_headers (snd (rateLimiter_middleware e options windowMs now c))
            ''X-RateLimit-Remaining'' = Some (show_int (requests options - 1))"
      unfolding eq using assms(4) by (simp_all add: new_window_def kv_put_def Let_def)
  }
  {
    assume h: "entries kv (rateLimitKey options c) = Some (d, t) \<and> now \<le> resetTime d
        \<and> count d < requests options"
    then have ex: "rateLimiter_try e options windowMs now (rateLimitKey options c) kv c
                   = existing_window e options now (rateLimitKey options c) kv d c"
      using rateLimiter_try_existing_window[OF assms(3)] by blast
    have ew: "existing_window e options now (rateLimitKey options c) kv d c =
      (Inr (),
       set_header ''X-RateLimit-Reset'' (show_int (resetTime d div 1000))
         (set_header ''X-RateLimit-Remaining'' (show_int (requests options - (count d + 1)))
           (set_header ''X-RateLimit-Limit'' (show_int (requests options))
             (c\<lparr>RATE_LIMITER := Some (if now < resetTime d
                  then kv\<lparr>entries := (entries kv)(rateLimitKey options c \<mapsto>
                            (d\<lparr>count := count d + 1\<rparr>,
                             \<lceil>real_of_int (resetTime d - now) / 1000\<rceil>))\<rparr>
                  else kv)\<rparr>))))"
      using h assms(4) by (simp add: existing_window_def kv_put_def Let_def ceiling_pos_iff)
    show "fst (rateLimiter_middleware e options windowMs now c) = Inr ()"
      and "RATE_LIMITER (snd (rateLimiter_middleware e options windowMs now c))
          = Some (if now < resetTime d
                  then kv\<lparr>entries := (entries kv)(rateLimitKey options c \<mapsto>
                            (d\<lparr>count := count d + 1\<rparr>,
                             \<lceil>real_of_int (resetTime d - now) / 1000\<rceil>))\<rparr>
                  else kv)"
      and "res_headers (snd (rateLimiter_middleware e options windowMs now c))
            ''X-RateLimit-Remaining'' = Some (show_int (requests options - (count d + 1)))"
      unfolding mw ex ew by simp_all
  }
  {
    assume h: "entries kv (rateLimitKey options c) = Some (d, t) \<and> now \<le> resetTime d
        \<and> requests options \<le> count d"
    then have ex: "rateLimiter_try e options windowMs now (rateLimitKey options c) kv c
                   = existing_window e options now (rateLimitKey options c) kv d c"
      using rateLimiter_try_existing_window[OF assms(3)] by blast
    show "fst (rateLimiter_middleware e options windowMs now c)
          = Inl (HTTPException 429 ''Rate limit exceeded''
                   (Some (RateLimitInfo \<lceil>real_of_int (resetTime d - now) / 1000\<rceil>
                            (requests options) (window options)
                            (Date_toISOString e (resetTime d)))))"
      and "RATE_LIMITER (snd (rateLimiter_middleware e options windowMs now c)) = Some kv"
      and "res_headers (snd (rateLimiter_middleware e options windowMs now c)) ''Retry-After''
          = Some (show_int \<lceil>real_of_int (resetTime d - now) / 1000\<rceil>)"
      unfolding mw ex using h assms(2) by (simp_all add: existing_window_def Let_def)
  }
qed

text \<open>
  The theorem for a limit of 100 per minute at time 1000: with an empty store, with a
  record of count 5 that resets at 31000, and with a record of count 100 that resets at
  31000.
\<close>

theorem rateLimiter_window_witness:
  "fst (rateLimiter_middleware example_env api_options 60000 1000
          (example_context\<lparr>RATE_LIMITER := Some empty_kv\<rparr>)) = Inr ()
   \<and> RATE_LIMITER (snd (rateLimiter_middleware example_env api_options 60000 1000
          (example_context\<lparr>RATE_LIMITER := Some empty_kv\<rparr>)))
       = Some (empty_kv\<lparr>entries := [example_rate_key \<mapsto> (\<lparr>count = 1, resetTime = 61000\<rparr>, 60)]\<rparr>)
   \<and> RATE_LIMITER (snd (rateLimiter_middleware example_env api_options 60000 1000
          (example_context\<lparr>RATE_LIMITER := Some (kv_holding \<lparr>count = 5, resetTime = 31000\<rparr>)\<rparr>)))
       = Some ((kv_holding \<lparr>count = 5, resetTime = 31000\<rparr>)
                 \<lparr>entries := [example_rate_key \<mapsto> (\<lparr>count = 6, resetTime = 31000\<rparr>, 30)]\<rparr>)
   \<and> fst (rateLimiter_middleware example_env api_options 60000 1000
          (example_context\<lparr>RATE_LIMITER := Some (kv_holding \<lparr>count = 100, resetTime = 31000\<rparr>)\<rparr>))
       = Inl (HTTPException 429 ''Rate limit exceeded''
                (Some (RateLimitInfo 30 100 ''1m'' ''1970-01-01T00:00:00.000Z'')))"
proof -
  have a: "fst (rateLimiter_middleware example_env api_options 60000 1000
          (example_context\<lparr>RATE_LIMITER := Some empty_kv\<rparr>)) = Inr ()
   \<and> RATE_LIMITER (snd (rateLimiter_middleware example_env api_options 60000 1000
          (example_context\<lparr>RATE_LIMITER := Some empty_kv\<rparr>)))
       = Some (empty_kv\<lparr>entries := [example_rate_key \<mapsto> (\<lparr>count = 1, resetTime = 61000\<rparr>, 60)]\<rparr>)"
    using rateLimiter_window[where options = api_options
            and c = "example_context\<lparr>RATE_LIMITER := Some empty_kv\<rparr>"
            and kv = empty_kv and now = 1000 and e = example_env and windowMs = 60000]
    by (simp add: empty_kv_def)
  have b: "RATE_LIMITER (snd (rateLimiter_middleware example_env api_options 60000 1000
          (example_context\<lparr>RATE_LIMITER := Some (kv_holding \<lparr>count = 5, resetTime = 31000\<rparr>)\<rparr>)))
       = Some ((kv_holding \<lparr>count = 5, resetTime = 31000\<rparr>)
                 \<lparr>entries := [example_rate_key \<mapsto> (\<lparr>count = 6, resetTime = 31000\<rparr>, 30)]\<rparr>)"
    using rateLimiter_window[where options = api_options
            and c = "example_context\<lparr>RATE_LIMITER :=
                       Some (kv_holding \<lparr>count = 5, resetTime = 31000\<rparr>)\<rparr>"
            and kv = "kv_holding \<lparr>count = 5, resetTime = 31000\<rparr>"
            and d = "\<lparr>count = 5, resetTime = 31000\<rparr>" and t = 60
            and now = 1000 and e = example_env and windowMs = 60000]
    by (simp add: kv_holding_def)
  have c: "fst (rateLimiter_middleware example_env api_options 60000 1000
          (example_context\<lparr>RATE_LIMITER := Some (kv_holding \<lparr>count = 100, resetTime = 31000\<rparr>)\<rparr>))
       = Inl (HTTPException 429 ''Rate limit exceeded''
                (Some (RateLimitInfo 30 100 ''1m'' ''1970-01-01T00:00:00.000Z'')))"
    using rateLimiter_window[where options = api_options
            and c = "example_context\<lparr>RATE_LIMITER :=
                       Some (kv_holding \<lparr>count = 100, resetTime = 31000\<rparr>)\<rparr>"
            and kv = "kv_holding \<lparr>count = 100, resetTime = 31000\<rparr>"
            and d = "\<lparr>count = 100, resetTime = 31000\<rparr>" and t = 60
            and now = 1000 and e = example_env and windowMs = 60000]
    by (simp add: example_env_def iso_sample_def)
  from a b c show ?thesis by blast
qed

lemmas eval_limiter = rateLimiter_middleware_def rateLimiter_try_def existing_window_def
  new_window_def kv_get_def kv_put_def Let_def

text \<open>
  Claim C6 as stated fails: at time 1000, a record of count 1 whose \<open>resetTime\<close> is
  1000 has not expired and is below the limit of 100; the request is allowed, but the
  store still holds the record with count 1: the incremented count is not persisted.
\<close>

theorem rateLimiter_no_write_at_reset:
  "entries (kv_holding \<lparr>count = 1, resetTime = 1000\<rparr>) example_rate_key
     = Some (\<lparr>count = 1, resetTime = 1000\<rparr>, 60)
   \<and> \<not> resetTime \<lparr>count = 1, resetTime = 1000\<rparr> < 1000
   \<and> count \<lparr>count = 1, resetTime = 1000\<rparr> < requests api_options
   \<and> fst (rateLimiter_middleware example_env api_options 60000 1000
          (example_context\<lparr>RATE_LIMITER := Some (kv_holding \<lparr>count = 1, resetTime = 1000\<rparr>)\<rparr>))
       = Inr ()
   \<and> RATE_LIMITER (snd (rateLimiter_middleware example_env api_options 60000 1000
          (example_context\<lparr>RATE_LIMITER := Some (kv_holding \<lparr>count = 1, resetTime = 1000\<rparr>)\<rparr>)))
       = Some (kv_holding \<lparr>count = 1, resetTime = 1000\<rparr>)"
  by (simp add: eval_limiter)

text \<open>
  Claim C7. When the store raises an error during a check (an error of the store, not a
  denial), the request fails with the 500 exception in production mode and, in
  development mode, is allowed after an error line and a warning are logged; a store
  whose reads raise, or whose write raises when a record is started, restarted or
  incremented, is such a case. When no store is configured, the check fails with
  the 500 exception in production mode and, in development mode, logs a warning and
  lets the request through without limiting it.
\<close>

theorem rateLimiter_failure_modes:
  "(\<not> skipped options c \<and> RATE_LIMITER c = Some kv
      \<and> fst (rateLimiter_try e options windowMs now (rateLimitKey options c) kv c)
           = Inl (Thrown err) \<longrightarrow>
      (NODE_ENV (validatedEnv c) = production \<longrightarrow>
         fst (rateLimiter_middleware e options windowMs now c)
           = Inl (HTTPException 500 ''Internal server error'' None))
    \<and> (NODE_ENV (validatedEnv c) = development \<longrightarrow>
         fst (rateLimiter_middleware e options windowMs now c) = Inr ()
       \<and> logs (snd (rateLimiter_middleware e options windowMs now c))
           = logs c @ [(LogError, ''Rate limiter error''),
                       (LogWarn, ''Rate limiter failed open in development mode'')]))
   \<and> (get_fault kv = Some err
        \<or> (get_fault kv = None \<and> put_fault kv = Some err
            \<and> (entries kv (rateLimitKey options c) = None
                \<or> (\<exists>d t. entries kv (rateLimitKey options c) = Some (d, t)
                      \<and> (resetTime d < now
                          \<or> (count d < requests options \<and> now < resetTime d))))) \<longrightarrow>
        fst (rateLimiter_try e options windowMs now (rateLimitKey options c) kv c)
          = Inl (Thrown err))
   \<and> (\<not> skipped options c \<and> RATE_LIMITER c = None \<longrightarrow>
      (NODE_ENV (validatedEnv c) = production \<longrightarrow>
         fst (rateLimiter_middleware e options windowMs now c)
           = Inl (HTTPException 500 ''Internal server error'' None))
    \<and> (NODE_ENV (validatedEnv c) = development \<longrightarrow>
         fst (rateLimiter_middleware e options windowMs now c) = Inr ()
       \<and> logs (snd (rateLimiter_middleware e options windowMs now c))
           = logs c @ [(LogWarn,
                        ''Rate limiter KV namespace not configured, skipping rate limiting'')]
       \<and> res_headers (snd (rateLimiter_middleware e options windowMs now c)) = res_headers c))"
proof (intro conjI impI)
  {
    assume h: "\<not> skipped options c \<and> RATE_LIMITER c = Some kv
      \<and> fst (rateLimiter_try e options windowMs now (rateLimitKey options c) kv c)
           = Inl (Thrown err)"
    then obtain c1 where t: "rateLimiter_try e options windowMs now (rateLimitKey options c) kv c
                              = (Inl (Thrown err), c1)"
      by (cases "rateLimiter_try e options windowMs now (rateLimitKey options c) kv c") auto
    then have c1: "c1 = c" by (rule rateLimiter_try_thrown)
    from h have mw: "rateLimiter_middleware e options windowMs now c =
           (let c2 = log_line LogError ''Rate limiter error'' c
                 in if NODE_ENV (validatedEnv c) = production
                    then (Inl (HTTPException 500 ''Internal server error'' None), c2)
                    else (Inr (),
                          log_line LogWarn ''Rate limiter failed open in development mode'' c2))"
      using rateLimiter_middleware_configured[of options c kv e windowMs now] t c1 by simp
    {
      assume "NODE_ENV (validatedEnv c) = production"
      then show "fst (rateLimiter_middleware e options windowMs now c)
           = Inl (HTTPException 500 ''Internal server error'' None)"
        unfolding mw by (simp add: Let_def)
    }
    {
      assume "NODE_ENV (validatedEnv c) = development"
      then show "fst (rateLimiter_middleware e options windowMs now c) = Inr ()"
        and "logs (snd (rateLimiter_middleware e options windowMs now c))
           = logs c @ [(LogError, ''Rate limiter error''),
                       (LogWarn, ''Rate limiter failed open in development mode'')]"
        unfolding mw by (simp_all add: Let_def)
    }
  }
  {
    assume "get_fault kv = Some err
        \<or> (get_fault kv = None \<and> put_fault kv = Some err
            \<and> (entries kv (rateLimitKey options c) = None
                \<or> (\<exists>d t. entries kv (rateLimitKey options c) = Some (d, t)
                      \<and> (resetTime d < now
                          \<or> (count d < requests options \<and> now < resetTime d)))))"
    then show "fst (rateLimiter_try e options windowMs now (rateLimitKey options c) kv c)
          = Inl (Thrown err)"
      by (auto simp: rateLimiter_try_def kv_get_def new_window_def existing_window_def
            kv_put_def Let_def ceiling_pos_iff)
  }
  {
    assume h: "\<not> skipped options c \<and> RATE_LIMITER c = None"
    {
      assume "NODE_ENV (validatedEnv c) = production"
      then show "fst (rateLimiter_middleware e options windowMs now c)
           = Inl (HTTPException 500 ''Internal server error'' None)"
        using h by (simp add: rateLimiter_middleware_def)
    }
    {
      assume "NODE_ENV (validatedEnv c) = development"
      then show "fst (rateLimiter_middleware e options windowMs now c) = Inr ()"
        and "logs (snd (rateLimiter_middleware e options windowMs now c))
           = logs c @ [(LogWarn,
                        ''Rate limiter KV namespace not configured, skipping rate limiting'')]"
        and "res_headers (snd (rateLimiter_middleware e options windowMs now c)) = res_headers c"
        using h by (simp_all add: rateLimiter_middleware_def)
    }
  }
qed


text \<open>
  The theorem for a store whose reads fail and for a missing store, each in production
  and in development mode.
\<close>

theorem rateLimiter_failure_modes_witness:
  "fst (rateLimiter_middleware example_env api_options 60000 1000
          (example_context\<lparr>RATE_LIMITER := Some failing_kv\<rparr>))
     = Inl (HTTPException 500 ''Internal server error'' None)
   \<and> fst (rateLimiter_middleware example_env api_options 60000 1000
          (development_context\<lparr>RATE_LIMITER := Some failing_kv\<rparr>)) = Inr ()
   \<and> logs (snd (rateLimiter_middleware example_env api_options 60000 1000
          (development_context\<lparr>RATE_LIMITER := Some failing_kv\<rparr>)))
       = [(LogError, ''Rate limiter error''),
          (LogWarn, ''Rate limiter failed open in development mode'')]
   \<and> fst (rateLimiter_middleware example_env api_options 60000 1000
          (example_context\<lparr>RATE_LIMITER := None\<rparr>))
       = Inl (HTTPException 500 ''Internal server error'' None)
   \<and> fst (rateLimiter_middleware example_env api_options 60000 1000
          (development_context\<lparr>RATE_LIMITER := None\<rparr>)) = Inr ()"
proof -
  have f: "get_fault failing_kv = Some (Error ''KV unavailable'')"
    by (simp add: failing_kv_def)
  note p = rateLimiter_failure_modes[where options = api_options
             and c = "example_context\<lparr>RATE_LIMITER := Some failing_kv\<rparr>" and kv = failing_kv
             and e = example_env and windowMs = 60000 and now = 1000
             and err = "Error ''KV unavailable''"]
  note d = rateLimiter_failure_modes[where options = api_options
             and c = "development_context\<lparr>RATE_LIMITER := Some failing_kv\<rparr>" and kv = failing_kv
             and e = example_env and windowMs = 60000 and now = 1000
             and err = "Error ''KV unavailable''"]
  note pn = rateLimiter_failure_modes[where options = api_options
             and c = "example_context\<lparr>RATE_LIMITER := None\<rparr>" and kv = failing_kv
             and e = example_env and windowMs = 60000 and now = 1000
             and err = "Error ''KV unavailable''"]
  note dn = rateLimiter_failure_modes[where options = api_options
             and c = "development_context\<lparr>RATE_LIMITER := None\<rparr>" and kv = failing_kv
             and e = example_env and windowMs = 60000 and now = 1000
             and err = "Error ''KV unavailable''"]
  from p d pn dn f show ?thesis by simp
qed


end
